theory Spec2Isabelle
  imports Complex_Main
begin

section \<open>The driving toy of \<^verbatim>\<open>cizzle-car-world-html/main.js\<close>\<close>

text \<open>
  The program is one JavaScript module: global state (latched keys, the tracked gamepad, the
  car, the camera, the obstacles), event handlers that mutate it, and a frame callback that
  polls the gamepad, moves the car and moves the camera.

  The global variables become the fields of one record that every function takes and
  returns. JavaScript numbers are modelled as mathematical reals: the literals \<open>0.6\<close>,
  \<open>0.15\<close>, \<open>0.05\<close> and \<open>Math.PI\<close> are the rationals and the number \<open>\<pi>\<close> they
  denote, and rounding is not modelled. Where a property depends on what the arithmetic
  does beyond the finite range, the kinematics are written a second time over numbers
  that overflow to an infinity and can be NaN.
\<close>

subsection \<open>Configuration constants (lines 7--8, 17--18, 26)\<close>

definition worldSize :: real where
  "worldSize = 100"

definition boundary :: real where
  "boundary = worldSize / 2 - 2"

definition carSpeed :: real where
  "carSpeed = 10"

definition turnSpeed :: real where
  "turnSpeed = pi"

definition deadZone :: real where
  "deadZone = 15 / 100"

subsection \<open>Data\<close>

record Vector3 =
  vec_x :: real
  vec_y :: real
  vec_z :: real

record Quaternion =
  quat_x :: real
  quat_y :: real
  quat_z :: real
  quat_w :: real

text \<open>The part of a three.js \<open>Object3D\<close> that the program reads and writes.\<close>

record Object3D =
  position :: Vector3
  quaternion :: Quaternion
  scale :: Vector3

text \<open>The object \<open>keys\<close> of lines 11--16.\<close>

record Keys =
  key_w :: bool
  key_a :: bool
  key_s :: bool
  key_d :: bool

text \<open>The object \<open>gamepadState\<close> of lines 22--25.\<close>

record GamepadState =
  axes :: "real list"
  buttons :: "bool list"

text \<open>What the browser reports of one gamepad: its index, its axes and its buttons.\<close>

record Gamepad =
  gp_index :: nat
  gp_axes :: "real list"
  gp_buttons :: "bool list"

text \<open>
  The module's mutable globals. \<open>gamepadIndex\<close> is \<open>null\<close> or a device index; of the
  camera only the position matters here.
\<close>

record Game =
  keys :: Keys
  gamepadIndex :: "nat option"
  gamepadState :: GamepadState
  car :: Object3D
  camera_position :: Vector3

subsection \<open>Reading a JavaScript array\<close>

text \<open>
  An index beyond the end of a JavaScript array reads \<open>undefined\<close>; it is \<open>None\<close> here.
\<close>

definition js_index :: "'a list \<Rightarrow> nat \<Rightarrow> 'a option" where
  "js_index xs i = (if i < length xs then Some (xs ! i) else None)"

subsection \<open>Gamepad events (lines 183--201)\<close>

definition handleGamepadConnected :: "Gamepad \<Rightarrow> Game \<Rightarrow> Game" where
  "handleGamepadConnected gamepad g =
     (if gamepadIndex g = None
      then g\<lparr>gamepadIndex := Some (gp_index gamepad),
             gamepadState := (gamepadState g)
               \<lparr>buttons := replicate (length (gp_buttons gamepad)) False\<rparr>\<rparr>
      else g)"

definition handleGamepadDisconnected :: "Gamepad \<Rightarrow> Game \<Rightarrow> Game" where
  "handleGamepadDisconnected gamepad g =
     (if Some (gp_index gamepad) = gamepadIndex g
      then g\<lparr>gamepadIndex := None,
             gamepadState := (gamepadState g)
               \<lparr>axes := [0, 0, 0, 0],
                buttons := map (\<lambda>_. False) (buttons (gamepadState g))\<rparr>\<rparr>
      else g)"

subsection \<open>Polling the gamepad (lines 229--255)\<close>

text \<open>Lines 243--246: a reading strictly inside the dead zone becomes zero.\<close>

definition snapDeadZone :: "real \<Rightarrow> real" where
  "snapDeadZone v = (if \<bar>v\<bar> < deadZone then 0 else v)"

text \<open>
  The loop of lines 242--249, from index \<open>i\<close> on: it writes the filtered reading of every
  axis that both the device and the tracked state have.
\<close>

function readAxes :: "real list \<Rightarrow> real list \<Rightarrow> nat \<Rightarrow> real list" where
  "readAxes gpAxes stAxes i =
     (if i < min (length gpAxes) (length stAxes)
      then readAxes gpAxes (stAxes[i := snapDeadZone (gpAxes ! i)]) (Suc i)
      else stAxes)"
  by pat_completeness auto
termination
  by (relation "measure (\<lambda>(gpAxes, stAxes, i). min (length gpAxes) (length stAxes) - i)") auto

declare readAxes.simps [simp del]

text \<open>
  \<open>gamepads\<close> is what \<open>navigator.getGamepads()\<close> returns in this frame: an array whose
  entries are a device or \<open>null\<close>. A missing or \<open>null\<close> entry at the tracked index clears
  the index and nothing else (lines 235--239).
\<close>

definition updateGamepadInput :: "Gamepad option list \<Rightarrow> Game \<Rightarrow> Game" where
  "updateGamepadInput gamepads g =
     (case gamepadIndex g of
        None \<Rightarrow> g
      | Some idx \<Rightarrow>
          (case js_index gamepads idx of
             Some (Some gp) \<Rightarrow>
               g\<lparr>gamepadState := (gamepadState g)
                    \<lparr>axes := readAxes (gp_axes gp) (axes (gamepadState g)) 0\<rparr>\<rparr>
           | _ \<Rightarrow> g\<lparr>gamepadIndex := None\<rparr>))"

subsection \<open>Resolving the input of a frame (lines 263--283)\<close>

text \<open>Lines 263--270: the keyboard's contribution, as the pair (forwardInput, turnInput).\<close>

definition keyboardForward :: "Keys \<Rightarrow> real" where
  "keyboardForward k =
     (let f0 = 0;
          f1 = (if key_w k then f0 - 1 else f0);
          f2 = (if key_s k then f1 + 6 / 10 else f1)
      in f2)"

definition keyboardTurn :: "Keys \<Rightarrow> real" where
  "keyboardTurn k =
     (let t0 = 0;
          t1 = (if key_a k then t0 + 1 else t0);
          t2 = (if key_d k then t1 - 1 else t1)
      in t2)"

text \<open>
  Lines 275--283. \<open>gamepadState.axes[1]\<close> is negated, and it overrides the keyboard when
  its magnitude is strictly above the dead zone. An \<open>undefined\<close> axis gives NaN, for which
  the comparison is false, so the keyboard value stays.
\<close>

definition forwardInput :: "Game \<Rightarrow> real" where
  "forwardInput g =
     (case js_index (axes (gamepadState g)) 1 of
        None \<Rightarrow> keyboardForward (keys g)
      | Some a1 \<Rightarrow>
          (let gpForward = - a1 in
           if \<bar>gpForward\<bar> > deadZone
           then (if gpForward > 0 then - gpForward else gpForward * (6 / 10))
           else keyboardForward (keys g)))"

definition turnInput :: "Game \<Rightarrow> real" where
  "turnInput g =
     (case js_index (axes (gamepadState g)) 0 of
        None \<Rightarrow> keyboardTurn (keys g)
      | Some gpTurn \<Rightarrow>
          (if \<bar>gpTurn\<bar> > deadZone then - gpTurn else keyboardTurn (keys g)))"

subsection \<open>The three.js operations the program calls\<close>

text \<open>
  The three.js library is imported (line 1) and is not among the sources. Each of its
  operations that the program calls is written here with the formula the library
  documents for it, next to the words the spec has for it.
\<close>

text \<open>
  Modelled from the spec: \<open>THREE.MathUtils.clamp\<close> of the library, missing from the
  sources. The spec has each coordinate "clamped independently" to the interval; the
  library computes \<open>Math.max(min, Math.min(max, value))\<close>.
\<close>

definition MathUtils_clamp :: "real \<Rightarrow> real \<Rightarrow> real \<Rightarrow> real" where
  "MathUtils_clamp v lo hi = max lo (min hi v)"

text \<open>
  Modelled from the spec: \<open>THREE.MathUtils.randFloatSpread\<close> of the library, missing from
  the sources: a draw "from a square region sized to 90% of the world extent, centered at
  the origin", one coordinate at a time. The library computes
  \<open>range * (0.5 - Math.random())\<close>; the value \<open>u\<close> of \<open>Math.random()\<close> is an argument.
\<close>

definition randFloatSpread :: "real \<Rightarrow> real \<Rightarrow> real" where
  "randFloatSpread spread u = spread * (1 / 2 - u)"

text \<open>
  Modelled from the spec: \<open>THREE.MathUtils.randFloat\<close> of the library, missing from the
  sources: a "scale factor in [1,4]". The library computes
  \<open>low + Math.random() * (high - low)\<close>; the value \<open>u\<close> of \<open>Math.random()\<close> is an
  argument.
\<close>

definition randFloat :: "real \<Rightarrow> real \<Rightarrow> real \<Rightarrow> real" where
  "randFloat low high u = low + u * (high - low)"

text \<open>
  Modelled from the spec: \<open>Quaternion.setFromAxisAngle\<close> of the library, missing from the
  sources: the "rotation about the vehicle's local vertical axis" as a quaternion. The
  axis is assumed to be normalised.
\<close>

definition setFromAxisAngle :: "Vector3 \<Rightarrow> real \<Rightarrow> Quaternion" where
  "setFromAxisAngle axis angle =
     (let halfAngle = angle / 2; s = sin halfAngle in
      \<lparr>quat_x = vec_x axis * s, quat_y = vec_y axis * s, quat_z = vec_z axis * s,
       quat_w = cos halfAngle\<rparr>)"

text \<open>
  Modelled from the spec: \<open>Quaternion.multiplyQuaternions\<close> of the library, missing from
  the sources, by which a rotation is "applied" to an orientation: the Hamilton product.
\<close>

definition multiplyQuaternions :: "Quaternion \<Rightarrow> Quaternion \<Rightarrow> Quaternion" where
  "multiplyQuaternions a b =
     \<lparr>quat_x = quat_x a * quat_w b + quat_w a * quat_x b + quat_y a * quat_z b - quat_z a * quat_y b,
      quat_y = quat_y a * quat_w b + quat_w a * quat_y b + quat_z a * quat_x b - quat_x a * quat_z b,
      quat_z = quat_z a * quat_w b + quat_w a * quat_z b + quat_x a * quat_y b - quat_y a * quat_x b,
      quat_w = quat_w a * quat_w b - quat_x a * quat_x b - quat_y a * quat_y b - quat_z a * quat_z b\<rparr>"

text \<open>
  Modelled from the spec: \<open>Vector3.applyQuaternion\<close> of the library, missing from the
  sources: a vector "rotated into the vehicle's current orientation". The library computes
  \<open>v + w t + q \<times> t\<close> with \<open>t = 2 (q \<times> v)\<close>, for a quaternion of unit length.
\<close>

definition applyQuaternion :: "Vector3 \<Rightarrow> Quaternion \<Rightarrow> Vector3" where
  "applyQuaternion v q =
     (let tx = 2 * (quat_y q * vec_z v - quat_z q * vec_y v);
          ty = 2 * (quat_z q * vec_x v - quat_x q * vec_z v);
          tz = 2 * (quat_x q * vec_y v - quat_y q * vec_x v)
      in \<lparr>vec_x = vec_x v + quat_w q * tx + quat_y q * tz - quat_z q * ty,
          vec_y = vec_y v + quat_w q * ty + quat_z q * tx - quat_x q * tz,
          vec_z = vec_z v + quat_w q * tz + quat_x q * ty - quat_y q * tx\<rparr>)"

text \<open>
  Modelled from the spec: \<open>Vector3.add\<close> of the library, missing from the sources: the
  "plus" of "the vehicle's world position plus a fixed local offset".
\<close>

definition add_v :: "Vector3 \<Rightarrow> Vector3 \<Rightarrow> Vector3" where
  "add_v u v = \<lparr>vec_x = vec_x u + vec_x v, vec_y = vec_y u + vec_y v, vec_z = vec_z u + vec_z v\<rparr>"

text \<open>
  Modelled from the spec: \<open>Vector3.multiplyScalar\<close> of the library, missing from the
  sources, which scales the forward axis by the distance to "advance".
\<close>

definition multiplyScalar :: "Vector3 \<Rightarrow> real \<Rightarrow> Vector3" where
  "multiplyScalar v k = \<lparr>vec_x = vec_x v * k, vec_y = vec_y v * k, vec_z = vec_z v * k\<rparr>"

text \<open>
  Modelled from the spec: \<open>Vector3.lerp\<close> of the library, missing from the sources:
  "linear interpolation with factor" \<open>alpha\<close>. The library adds \<open>(v - u) * alpha\<close> to each
  coordinate of \<open>u\<close>.
\<close>

definition lerp :: "Vector3 \<Rightarrow> Vector3 \<Rightarrow> real \<Rightarrow> Vector3" where
  "lerp u v alpha =
     \<lparr>vec_x = vec_x u + (vec_x v - vec_x u) * alpha,
      vec_y = vec_y u + (vec_y v - vec_y u) * alpha,
      vec_z = vec_z u + (vec_z v - vec_z u) * alpha\<rparr>"

text \<open>
  Modelled from the spec: the library's unit vector of the "local vertical axis", missing
  from the sources.
\<close>

definition yAxis :: Vector3 where
  "yAxis = \<lparr>vec_x = 0, vec_y = 1, vec_z = 0\<rparr>"

text \<open>
  Modelled from the spec: the library's unit vector of the "local forward axis", missing
  from the sources.
\<close>

definition zAxis :: Vector3 where
  "zAxis = \<lparr>vec_x = 0, vec_y = 0, vec_z = 1\<rparr>"

text \<open>
  Modelled from the spec: \<open>Object3D.rotateOnAxis\<close> of the library, missing from the
  sources: a rotation about an axis of the object's own frame. The library multiplies the
  object's quaternion on the right by the rotation.
\<close>

definition rotateOnAxis :: "Object3D \<Rightarrow> Vector3 \<Rightarrow> real \<Rightarrow> Object3D" where
  "rotateOnAxis obj axis angle =
     obj\<lparr>quaternion := multiplyQuaternions (quaternion obj) (setFromAxisAngle axis angle)\<rparr>"

text \<open>
  Modelled from the spec: \<open>Object3D.rotateY\<close> of the library, missing from the sources:
  "a rotation about the vehicle's local vertical axis".
\<close>

definition rotateY :: "Object3D \<Rightarrow> real \<Rightarrow> Object3D" where
  "rotateY obj angle = rotateOnAxis obj yAxis angle"

text \<open>
  Modelled from the spec: \<open>Object3D.translateOnAxis\<close> of the library, missing from the
  sources: "translation is applied in local space". The library adds to the position the
  axis rotated by the object's quaternion, times the distance.
\<close>

definition translateOnAxis :: "Object3D \<Rightarrow> Vector3 \<Rightarrow> real \<Rightarrow> Object3D" where
  "translateOnAxis obj axis distance =
     obj\<lparr>position :=
           add_v (position obj) (multiplyScalar (applyQuaternion axis (quaternion obj)) distance)\<rparr>"

text \<open>
  Modelled from the spec: \<open>Object3D.translateZ\<close> of the library, missing from the sources:
  the vehicle "advances along its own local forward axis".
\<close>

definition translateZ :: "Object3D \<Rightarrow> real \<Rightarrow> Object3D" where
  "translateZ obj distance = translateOnAxis obj zAxis distance"

text \<open>
  Modelled from the spec: the state of an object that the library's constructor
  \<open>THREE.Mesh\<close>, missing from the sources, returns: at the origin, not rotated, of scale one.
\<close>

definition newMesh :: Object3D where
  "newMesh =
     \<lparr>position = \<lparr>vec_x = 0, vec_y = 0, vec_z = 0\<rparr>,
      quaternion = \<lparr>quat_x = 0, quat_y = 0, quat_z = 0, quat_w = 1\<rparr>,
      scale = \<lparr>vec_x = 1, vec_y = 1, vec_z = 1\<rparr>\<rparr>"

subsection \<open>Moving the car (lines 258--302)\<close>

text \<open>Lines 285--294: turn first, then move along the turned car's own z axis.\<close>

definition applyInput :: "real \<Rightarrow> real \<Rightarrow> real \<Rightarrow> Object3D \<Rightarrow> Object3D" where
  "applyInput deltaTime fwd turn c =
     (let currentTurnSpeed = turnSpeed * deltaTime;
          currentMoveSpeed = carSpeed * deltaTime;
          c1 = (if turn \<noteq> 0 then rotateY c (currentTurnSpeed * turn) else c);
          c2 = (if fwd \<noteq> 0 then translateZ c1 (currentMoveSpeed * fwd) else c1)
      in c2)"

text \<open>Lines 296--301: clamp x and z to the boundary and put the car on the ground.\<close>

definition boundaryChecks :: "Object3D \<Rightarrow> Object3D" where
  "boundaryChecks c =
     (let p = position c;
          p1 = p\<lparr>vec_x := MathUtils_clamp (vec_x p) (- boundary) boundary\<rparr>;
          p2 = p1\<lparr>vec_z := MathUtils_clamp (vec_z p1) (- boundary) boundary\<rparr>;
          p3 = p2\<lparr>vec_y := 1 / 2\<rparr>
      in c\<lparr>position := p3\<rparr>)"

definition updateCar :: "real \<Rightarrow> Game \<Rightarrow> Game" where
  "updateCar deltaTime g =
     g\<lparr>car := boundaryChecks (applyInput deltaTime (forwardInput g) (turnInput g) (car g))\<rparr>"

subsection \<open>Moving the camera (lines 305--329)\<close>

text \<open>
  The car is a child of the scene, which is never moved, so \<open>car.getWorldPosition\<close>
  yields \<open>car.position\<close>. The vector of lines 307--310 is computed and never read;
  \<open>camera.lookAt\<close> turns the camera and leaves its position.
\<close>

definition desiredCameraPosition :: "Object3D \<Rightarrow> Vector3" where
  "desiredCameraPosition c =
     add_v (position c) (applyQuaternion \<lparr>vec_x = 0, vec_y = 5, vec_z = 12\<rparr> (quaternion c))"

definition updateCamera :: "Game \<Rightarrow> Game" where
  "updateCamera g =
     g\<lparr>camera_position := lerp (camera_position g) (desiredCameraPosition (car g)) (5 / 100)\<rparr>"

subsection \<open>One frame (lines 210--226)\<close>

definition animate :: "real \<Rightarrow> Gamepad option list \<Rightarrow> Game \<Rightarrow> Game" where
  "animate deltaTime gamepads g = updateCamera (updateCar deltaTime (updateGamepadInput gamepads g))"

subsection \<open>Creating the obstacles (lines 108--137)\<close>

text \<open>
  \<open>Math.random()\<close> is the sequence \<open>random\<close> of the values it returns, with the number
  of values drawn so far as a cursor. The \<open>while\<close> loop of lines 117--125 draws pairs
  until one is outside the start area; it returns the accepted pair and the new cursor,
  and \<open>None\<close> when it never ends.
\<close>

partial_function (option) placeObstacle :: "(nat \<Rightarrow> real) \<Rightarrow> nat \<Rightarrow> (real \<times> real \<times> nat) option" where
  "placeObstacle random n =
     (let x = randFloatSpread (worldSize * (9 / 10)) (random n);
          z = randFloatSpread (worldSize * (9 / 10)) (random (n + 1))
      in if \<bar>x\<bar> > 5 \<or> \<bar>z\<bar> > 5 then Some (x, z, n + 2)
         else placeObstacle random (n + 2))"

text \<open>The body of the \<open>for\<close> loop: one obstacle, placed and then scaled.\<close>

definition createObstacle :: "(nat \<Rightarrow> real) \<Rightarrow> nat \<Rightarrow> (Object3D \<times> nat) option" where
  "createObstacle random n =
     (case placeObstacle random n of
        None \<Rightarrow> None
      | Some (x, z, n') \<Rightarrow>
          (let ob1 = newMesh\<lparr>position := \<lparr>vec_x = x, vec_y = 1 / 2, vec_z = z\<rparr>\<rparr>;
               s = randFloat 1 4 (random n');
               ob2 = ob1\<lparr>scale := \<lparr>vec_x = s, vec_y = s, vec_z = s\<rparr>\<rparr>;
               ob3 = ob2\<lparr>position := (position ob2)\<lparr>vec_y := s / 2\<rparr>\<rparr>
           in Some (ob3, n' + 1)))"

text \<open>
  The \<open>for\<close> loop with \<open>k\<close> iterations left, pushing onto the array \<open>obstacles\<close>.
\<close>

fun createObstaclesLoop ::
  "(nat \<Rightarrow> real) \<Rightarrow> nat \<Rightarrow> nat \<Rightarrow> Object3D list \<Rightarrow> (Object3D list \<times> nat) option" where
  "createObstaclesLoop random 0 n obstacles = Some (obstacles, n)"
| "createObstaclesLoop random (Suc k) n obstacles =
     (case createObstacle random n of
        None \<Rightarrow> None
      | Some (ob, n') \<Rightarrow> createObstaclesLoop random k n' (obstacles @ [ob]))"

text \<open>\<open>createObstacles(count)\<close>, called once from \<open>init\<close> with the array empty.\<close>

definition createObstacles :: "nat \<Rightarrow> (nat \<Rightarrow> real) \<Rightarrow> (Object3D list \<times> nat) option" where
  "createObstacles count random = createObstaclesLoop random count 0 []"

subsection \<open>Numbers that overflow\<close>

text \<open>
  A JavaScript number is a finite value, one of the two infinities, or NaN. The result of
  an operation on finite values is infinite when its magnitude reaches the overflow
  threshold of IEEE double precision, \<open>2^1024 - 2^970\<close>; below it the exact result stands
  for the rounded one. Signed zeros and underflow are not modelled.
\<close>

datatype jsnum = Num real | PosInf | NegInf | NaN

definition overflowLimit :: real where
  "overflowLimit = 2 ^ 1024 - 2 ^ 970"

text \<open>The number an operation returns when its exact result is \<open>r\<close>.\<close>

definition js_result :: "real \<Rightarrow> jsnum" where
  "js_result r =
     (if overflowLimit \<le> r then PosInf else if r \<le> - overflowLimit then NegInf else Num r)"

fun js_neg :: "jsnum \<Rightarrow> jsnum" where
  "js_neg (Num a) = Num (- a)"
| "js_neg PosInf = NegInf"
| "js_neg NegInf = PosInf"
| "js_neg NaN = NaN"

text \<open>An infinity times a finite number: NaN for zero, else the infinity of the product's sign.\<close>

definition inf_times :: "jsnum \<Rightarrow> real \<Rightarrow> jsnum" where
  "inf_times i a = (if a = 0 then NaN else if 0 < a then i else js_neg i)"

fun js_mul :: "jsnum \<Rightarrow> jsnum \<Rightarrow> jsnum" where
  "js_mul (Num a) (Num b) = js_result (a * b)"
| "js_mul NaN _ = NaN"
| "js_mul _ NaN = NaN"
| "js_mul (Num a) i = inf_times i a"
| "js_mul i (Num b) = inf_times i b"
| "js_mul PosInf i = i"
| "js_mul NegInf i = js_neg i"

fun js_add :: "jsnum \<Rightarrow> jsnum \<Rightarrow> jsnum" where
  "js_add (Num a) (Num b) = js_result (a + b)"
| "js_add NaN _ = NaN"
| "js_add _ NaN = NaN"
| "js_add PosInf NegInf = NaN"
| "js_add NegInf PosInf = NaN"
| "js_add PosInf _ = PosInf"
| "js_add _ PosInf = PosInf"
| "js_add NegInf _ = NegInf"
| "js_add _ NegInf = NegInf"

definition js_sub :: "jsnum \<Rightarrow> jsnum \<Rightarrow> jsnum" where
  "js_sub a b = js_add a (js_neg b)"

text \<open>The division by 2 of \<open>angle / 2\<close>.\<close>

fun js_half :: "jsnum \<Rightarrow> jsnum" where
  "js_half (Num a) = Num (a / 2)"
| "js_half i = i"

text \<open>\<open>Math.sin\<close> and \<open>Math.cos\<close> return NaN for an infinite or NaN argument.\<close>

fun Math_sin :: "jsnum \<Rightarrow> jsnum" where
  "Math_sin (Num a) = Num (sin a)"
| "Math_sin _ = NaN"

fun Math_cos :: "jsnum \<Rightarrow> jsnum" where
  "Math_cos (Num a) = Num (cos a)"
| "Math_cos _ = NaN"

text \<open>The order of two numbers, false when either is NaN.\<close>

fun js_le :: "jsnum \<Rightarrow> jsnum \<Rightarrow> bool" where
  "js_le NaN _ = False"
| "js_le _ NaN = False"
| "js_le NegInf _ = True"
| "js_le _ PosInf = True"
| "js_le (Num a) (Num b) = (a \<le> b)"
| "js_le _ _ = False"

text \<open>\<open>Math.max\<close> and \<open>Math.min\<close> return NaN when an argument is NaN.\<close>

definition Math_max :: "jsnum \<Rightarrow> jsnum \<Rightarrow> jsnum" where
  "Math_max a b = (if a = NaN \<or> b = NaN then NaN else if js_le a b then b else a)"

definition Math_min :: "jsnum \<Rightarrow> jsnum \<Rightarrow> jsnum" where
  "Math_min a b = (if a = NaN \<or> b = NaN then NaN else if js_le a b then a else b)"

subsection \<open>Moving the car, over numbers that overflow (lines 258--302)\<close>

text \<open>
  The pose of the car and the operations of the library once more, with the same formulas
  in the same order of evaluation, over \<open>jsnum\<close>.
\<close>

record Vector3_js =
  jvec_x :: jsnum
  jvec_y :: jsnum
  jvec_z :: jsnum

record Quaternion_js =
  jquat_x :: jsnum
  jquat_y :: jsnum
  jquat_z :: jsnum
  jquat_w :: jsnum

record Object3D_js =
  jposition :: Vector3_js
  jquaternion :: Quaternion_js

text \<open>
  Modelled from the spec: \<open>THREE.MathUtils.clamp\<close> of the library, missing from the
  sources, as \<open>Math.max(min, Math.min(max, value))\<close> over \<open>jsnum\<close>.
\<close>

definition MathUtils_clamp_js :: "jsnum \<Rightarrow> jsnum \<Rightarrow> jsnum \<Rightarrow> jsnum" where
  "MathUtils_clamp_js v lo hi = Math_max lo (Math_min hi v)"

text \<open>
  Modelled from the spec: \<open>Quaternion.setFromAxisAngle\<close> of the library, missing from the
  sources, over \<open>jsnum\<close>.
\<close>

definition setFromAxisAngle_js :: "Vector3_js \<Rightarrow> jsnum \<Rightarrow> Quaternion_js" where
  "setFromAxisAngle_js axis angle =
     (let halfAngle = js_half angle; s = Math_sin halfAngle in
      \<lparr>jquat_x = js_mul (jvec_x axis) s, jquat_y = js_mul (jvec_y axis) s,
       jquat_z = js_mul (jvec_z axis) s, jquat_w = Math_cos halfAngle\<rparr>)"

text \<open>
  Modelled from the spec: \<open>Quaternion.multiplyQuaternions\<close> of the library, missing from
  the sources, over \<open>jsnum\<close>; sums and differences associate to the left.
\<close>

definition multiplyQuaternions_js :: "Quaternion_js \<Rightarrow> Quaternion_js \<Rightarrow> Quaternion_js" where
  "multiplyQuaternions_js a b =
     \<lparr>jquat_x = js_sub (js_add (js_add (js_mul (jquat_x a) (jquat_w b)) (js_mul (jquat_w a) (jquat_x b)))
                                (js_mul (jquat_y a) (jquat_z b)))
                        (js_mul (jquat_z a) (jquat_y b)),
      jquat_y = js_sub (js_add (js_add (js_mul (jquat_y a) (jquat_w b)) (js_mul (jquat_w a) (jquat_y b)))
                                (js_mul (jquat_z a) (jquat_x b)))
                        (js_mul (jquat_x a) (jquat_z b)),
      jquat_z = js_sub (js_add (js_add (js_mul (jquat_z a) (jquat_w b)) (js_mul (jquat_w a) (jquat_z b)))
                                (js_mul (jquat_x a) (jquat_y b)))
                        (js_mul (jquat_y a) (jquat_x b)),
      jquat_w = js_sub (js_sub (js_sub (js_mul (jquat_w a) (jquat_w b)) (js_mul (jquat_x a) (jquat_x b)))
                                (js_mul (jquat_y a) (jquat_y b)))
                        (js_mul (jquat_z a) (jquat_z b))\<rparr>"

text \<open>
  Modelled from the spec: \<open>Vector3.applyQuaternion\<close> of the library, missing from the
  sources, over \<open>jsnum\<close>.
\<close>

definition applyQuaternion_js :: "Vector3_js \<Rightarrow> Quaternion_js \<Rightarrow> Vector3_js" where
  "applyQuaternion_js v q =
     (let tx = js_mul (Num 2) (js_sub (js_mul (jquat_y q) (jvec_z v)) (js_mul (jquat_z q) (jvec_y v)));
          ty = js_mul (Num 2) (js_sub (js_mul (jquat_z q) (jvec_x v)) (js_mul (jquat_x q) (jvec_z v)));
          tz = js_mul (Num 2) (js_sub (js_mul (jquat_x q) (jvec_y v)) (js_mul (jquat_y q) (jvec_x v)))
      in \<lparr>jvec_x = js_sub (js_add (js_add (jvec_x v) (js_mul (jquat_w q) tx)) (js_mul (jquat_y q) tz))
                          (js_mul (jquat_z q) ty),
          jvec_y = js_sub (js_add (js_add (jvec_y v) (js_mul (jquat_w q) ty)) (js_mul (jquat_z q) tx))
                          (js_mul (jquat_x q) tz),
          jvec_z = js_sub (js_add (js_add (jvec_z v) (js_mul (jquat_w q) tz)) (js_mul (jquat_x q) ty))
                          (js_mul (jquat_y q) tx)\<rparr>)"

text \<open>
  Modelled from the spec: \<open>Vector3.add\<close> of the library, missing from the sources, over
  \<open>jsnum\<close>.
\<close>

definition add_v_js :: "Vector3_js \<Rightarrow> Vector3_js \<Rightarrow> Vector3_js" where
  "add_v_js u v =
     \<lparr>jvec_x = js_add (jvec_x u) (jvec_x v), jvec_y = js_add (jvec_y u) (jvec_y v),
      jvec_z = js_add (jvec_z u) (jvec_z v)\<rparr>"

text \<open>
  Modelled from the spec: \<open>Vector3.multiplyScalar\<close> of the library, missing from the
  sources, over \<open>jsnum\<close>.
\<close>

definition multiplyScalar_js :: "Vector3_js \<Rightarrow> jsnum \<Rightarrow> Vector3_js" where
  "multiplyScalar_js v k =
     \<lparr>jvec_x = js_mul (jvec_x v) k, jvec_y = js_mul (jvec_y v) k, jvec_z = js_mul (jvec_z v) k\<rparr>"

text \<open>
  Modelled from the spec: the library's unit vector of the "local vertical axis", missing
  from the sources, over \<open>jsnum\<close>.
\<close>

definition yAxis_js :: Vector3_js where
  "yAxis_js = \<lparr>jvec_x = Num 0, jvec_y = Num 1, jvec_z = Num 0\<rparr>"

text \<open>
  Modelled from the spec: the library's unit vector of the "local forward axis", missing
  from the sources, over \<open>jsnum\<close>.
\<close>

definition zAxis_js :: Vector3_js where
  "zAxis_js = \<lparr>jvec_x = Num 0, jvec_y = Num 0, jvec_z = Num 1\<rparr>"

text \<open>
  Modelled from the spec: \<open>Object3D.rotateY\<close> of the library, missing from the sources,
  over \<open>jsnum\<close>.
\<close>

definition rotateY_js :: "Object3D_js \<Rightarrow> jsnum \<Rightarrow> Object3D_js" where
  "rotateY_js obj angle =
     obj\<lparr>jquaternion := multiplyQuaternions_js (jquaternion obj) (setFromAxisAngle_js yAxis_js angle)\<rparr>"

text \<open>
  Modelled from the spec: \<open>Object3D.translateZ\<close> of the library, missing from the sources,
  over \<open>jsnum\<close>.
\<close>

definition translateZ_js :: "Object3D_js \<Rightarrow> jsnum \<Rightarrow> Object3D_js" where
  "translateZ_js obj distance =
     obj\<lparr>jposition :=
           add_v_js (jposition obj)
             (multiplyScalar_js (applyQuaternion_js zAxis_js (jquaternion obj)) distance)\<rparr>"

text \<open>
  Lines 259--294. The resolved inputs are finite: they come from the key flags and from
  the tracked axes.
\<close>

definition applyInput_js :: "jsnum \<Rightarrow> real \<Rightarrow> real \<Rightarrow> Object3D_js \<Rightarrow> Object3D_js" where
  "applyInput_js deltaTime fwd turn c =
     (let currentTurnSpeed = js_mul (Num turnSpeed) deltaTime;
          currentMoveSpeed = js_mul (Num carSpeed) deltaTime;
          c1 = (if turn \<noteq> 0 then rotateY_js c (js_mul currentTurnSpeed (Num turn)) else c);
          c2 = (if fwd \<noteq> 0 then translateZ_js c1 (js_mul currentMoveSpeed (Num fwd)) else c1)
      in c2)"

text \<open>Lines 296--301.\<close>

definition boundaryChecks_js :: "Object3D_js \<Rightarrow> Object3D_js" where
  "boundaryChecks_js c =
     (let p = jposition c;
          p1 = p\<lparr>jvec_x := MathUtils_clamp_js (jvec_x p) (Num (- boundary)) (Num boundary)\<rparr>;
          p2 = p1\<lparr>jvec_z := MathUtils_clamp_js (jvec_z p1) (Num (- boundary)) (Num boundary)\<rparr>;
          p3 = p2\<lparr>jvec_y := Num (1 / 2)\<rparr>
      in c\<lparr>jposition := p3\<rparr>)"

text \<open>\<open>updateCar\<close> on the pose \<open>c\<close> of the car, with the keys and axes of \<open>g\<close>.\<close>

definition updateCar_js :: "jsnum \<Rightarrow> Game \<Rightarrow> Object3D_js \<Rightarrow> Object3D_js" where
  "updateCar_js deltaTime g c =
     boundaryChecks_js (applyInput_js deltaTime (forwardInput g) (turnInput g) c)"

subsection \<open>The state after \<open>init\<close> (lines 21--25, 85--91)\<close>

text \<open>
  No key is down and no gamepad is tracked; the car is a fresh mesh raised to the ground
  offset, and the camera is a fresh object at the origin.
\<close>

definition initialGame :: Game where
  "initialGame =
     \<lparr>keys = \<lparr>key_w = False, key_a = False, key_s = False, key_d = False\<rparr>,
      gamepadIndex = None,
      gamepadState = \<lparr>axes = [0, 0, 0, 0], buttons = []\<rparr>,
      car = newMesh\<lparr>position := \<lparr>vec_x = 0, vec_y = 1 / 2, vec_z = 0\<rparr>\<rparr>,
      camera_position = \<lparr>vec_x = 0, vec_y = 0, vec_z = 0\<rparr>\<rparr>"

subsection \<open>Notions used to state the properties\<close>


text \<open>The test of line 120 on the pair of draws that starts at cursor \<open>n\<close>.\<close>

definition accepted :: "(nat \<Rightarrow> real) \<Rightarrow> nat \<Rightarrow> bool" where
  "accepted random n \<longleftrightarrow>
     \<bar>randFloatSpread (worldSize * (9 / 10)) (random n)\<bar> > 5 \<or>
     \<bar>randFloatSpread (worldSize * (9 / 10)) (random (n + 1))\<bar> > 5"

text \<open>A source of random numbers that returns the same value \<open>u\<close> at every call.\<close>

definition constantRandom :: "real \<Rightarrow> nat \<Rightarrow> real" where
  "constantRandom u n = u"

text \<open>
  An obstacle built from the draws at the cursors \<open>j\<close>, \<open>j + 1\<close> and \<open>j + 2\<close>: the pair
  at \<open>j\<close> passes the test of line 120 and gives x and z, and the draw at \<open>j + 2\<close> gives
  the scale and, halved, y.
\<close>

definition drawnAt :: "(nat \<Rightarrow> real) \<Rightarrow> nat \<Rightarrow> Object3D \<Rightarrow> bool" where
  "drawnAt random j ob \<longleftrightarrow>
     accepted random j \<and>
     position ob =
       \<lparr>vec_x = randFloatSpread (worldSize * (9 / 10)) (random j),
        vec_y = randFloat 1 4 (random (j + 2)) / 2,
        vec_z = randFloatSpread (worldSize * (9 / 10)) (random (j + 1))\<rparr> \<and>
     scale ob =
       \<lparr>vec_x = randFloat 1 4 (random (j + 2)), vec_y = randFloat 1 4 (random (j + 2)),
        vec_z = randFloat 1 4 (random (j + 2))\<rparr>"

text \<open>The pose of the car after \<open>init\<close>, over \<open>jsnum\<close>.\<close>

definition initialCar_js :: Object3D_js where
  "initialCar_js =
     \<lparr>jposition = \<lparr>jvec_x = Num 0, jvec_y = Num (1 / 2), jvec_z = Num 0\<rparr>,
      jquaternion = \<lparr>jquat_x = Num 0, jquat_y = Num 0, jquat_z = Num 0, jquat_w = Num 1\<rparr>\<rparr>"

text \<open>A coordinate that is a finite number between the two boundaries.\<close>

definition withinBoundary :: "jsnum \<Rightarrow> bool" where
  "withinBoundary v =
     (case v of Num r \<Rightarrow> - (worldSize / 2 - 2) \<le> r \<and> r \<le> worldSize / 2 - 2 | _ \<Rightarrow> False)"

text \<open>A finite number of magnitude at most \<open>k\<close>.\<close>

definition finiteWithin :: "real \<Rightarrow> jsnum \<Rightarrow> bool" where
  "finiteWithin k v = (case v of Num r \<Rightarrow> \<bar>r\<bar> \<le> k | _ \<Rightarrow> False)"

section \<open>Properties\<close>

subsection \<open>Polling\<close>

lemma length_readAxes: "length (readAxes gpAxes stAxes i) = length stAxes"
proof (induction gpAxes stAxes i rule: readAxes.induct)
  case (1 gpAxes stAxes i)
  then show ?case by (subst readAxes.simps) simp
qed

lemma readAxes_nth:
  "k < length stAxes \<Longrightarrow>
   readAxes gpAxes stAxes i ! k =
     (if i \<le> k \<and> k < length gpAxes then snapDeadZone (gpAxes ! k) else stAxes ! k)"
proof (induction gpAxes stAxes i rule: readAxes.induct)
  case (1 gpAxes stAxes i)
  show ?case
  proof (cases "i < min (length gpAxes) (length stAxes)")
    case True
    then have "readAxes gpAxes stAxes i ! k =
        readAxes gpAxes (stAxes[i := snapDeadZone (gpAxes ! i)]) (Suc i) ! k"
      by (subst readAxes.simps) simp
    also have "\<dots> = (if Suc i \<le> k \<and> k < length gpAxes then snapDeadZone (gpAxes ! k)
                      else stAxes[i := snapDeadZone (gpAxes ! i)] ! k)"
      using "1.IH"[OF True] "1.prems" by simp
    also have "\<dots> = (if i \<le> k \<and> k < length gpAxes then snapDeadZone (gpAxes ! k) else stAxes ! k)"
      using True "1.prems" by (cases "i = k") auto
    finally show ?thesis .
  next
    case False
    then have "readAxes gpAxes stAxes i = stAxes"
      by (subst readAxes.simps) auto
    with False "1.prems" show ?thesis by auto
  qed
qed

text \<open>What a successful poll stores for an axis that the device and the state both have.\<close>

lemma polled_axis:
  assumes "gamepadIndex g = Some idx"
    and "js_index gamepads idx = Some (Some gp)"
    and "js_index (gp_axes gp) i = Some v"
    and "i < length (axes (gamepadState g))"
  shows "js_index (axes (gamepadState (updateGamepadInput gamepads g))) i = Some (snapDeadZone v)"
proof -
  from assms(3) have i: "i < length (gp_axes gp)" and v: "gp_axes gp ! i = v"
    by (auto simp: js_index_def split: if_splits)
  have "axes (gamepadState (updateGamepadInput gamepads g)) =
      readAxes (gp_axes gp) (axes (gamepadState g)) 0"
    using assms(1,2) by (simp add: updateGamepadInput_def)
  then show ?thesis
    using i v assms(4) by (simp add: js_index_def length_readAxes readAxes_nth)
qed

lemma updateGamepadInput_keys: "keys (updateGamepadInput gamepads g) = keys g"
  by (simp add: updateGamepadInput_def split: option.splits)

subsection \<open>Input resolution\<close>

lemma turnInput_same:
  "gamepadState g' = gamepadState g \<Longrightarrow> keys g' = keys g \<Longrightarrow> turnInput g' = turnInput g"
  by (simp add: turnInput_def split: option.splits)

lemma turnInput_no_override:
  "js_index (axes (gamepadState g)) 0 = Some v \<Longrightarrow> \<bar>v\<bar> \<le> deadZone \<Longrightarrow>
   turnInput g = keyboardTurn (keys g)"
  by (simp add: turnInput_def)

lemma forwardInput_no_override:
  "js_index (axes (gamepadState g)) 1 = Some v \<Longrightarrow> \<bar>v\<bar> \<le> deadZone \<Longrightarrow>
   forwardInput g = keyboardForward (keys g)"
  by (simp add: forwardInput_def Let_def)

text \<open>
  C3. The keyboard's forward value is the sum of -1 for the forward key and +0.6 for the
  back key, its turn value the sum of +1 for the left key and -1 for the right key; with
  the gamepad axes neutral these are the resolved inputs. So the forward key alone gives
  -1, the back key alone +0.6, and both together -0.4.
\<close>

theorem C3_keyboard_additive:
  "keyboardForward k = (if key_w k then - 1 else 0) + (if key_s k then 6 / 10 else 0) \<and>
   keyboardTurn k = (if key_a k then 1 else 0) + (if key_d k then - 1 else 0) \<and>
   (axes (gamepadState g) = [0, 0, 0, 0] \<longrightarrow>
      forwardInput g = keyboardForward (keys g) \<and> turnInput g = keyboardTurn (keys g)) \<and>
   (key_w k \<and> \<not> key_s k \<longrightarrow> keyboardForward k = - 1) \<and>
   (\<not> key_w k \<and> key_s k \<longrightarrow> keyboardForward k = 6 / 10) \<and>
   (key_w k \<and> key_s k \<longrightarrow> keyboardForward k = - (4 / 10))"
  by (simp add: keyboardForward_def keyboardTurn_def forwardInput_def turnInput_def
      js_index_def deadZone_def Let_def)

theorem C3_keyboard_additive_witness:
  "forwardInput (initialGame\<lparr>keys := \<lparr>key_w = True, key_a = False, key_s = True, key_d = False\<rparr>\<rparr>)
     = - (4 / 10)"
  using C3_keyboard_additive
    [of "\<lparr>key_w = True, key_a = False, key_s = True, key_d = False\<rparr>"
        "initialGame\<lparr>keys := \<lparr>key_w = True, key_a = False, key_s = True, key_d = False\<rparr>\<rparr>"]
  by (simp add: initialGame_def)

text \<open>
  C4. When the magnitude of the tracked axis 0 is above the dead zone, the turn input is
  the negated axis value, whatever the keys say.
\<close>

theorem C4_gamepad_turn_overrides:
  "js_index (axes (gamepadState g)) 0 = Some axisX \<Longrightarrow> \<bar>axisX\<bar> > deadZone \<Longrightarrow>
   turnInput g = - axisX"
  by (simp add: turnInput_def)

text \<open>An axis reading of 0.5 with the left key down: the turn input is -0.5, not +1.\<close>

theorem C4_gamepad_turn_overrides_witness:
  "keyboardTurn \<lparr>key_w = False, key_a = True, key_s = False, key_d = False\<rparr> = 1 \<and>
   turnInput (initialGame
      \<lparr>keys := \<lparr>key_w = False, key_a = True, key_s = False, key_d = False\<rparr>,
       gamepadState := \<lparr>axes = [1 / 2, 0, 0, 0], buttons = []\<rparr>\<rparr>) = - (1 / 2)"
  using C4_gamepad_turn_overrides
    [of "initialGame
      \<lparr>keys := \<lparr>key_w = False, key_a = True, key_s = False, key_d = False\<rparr>,
       gamepadState := \<lparr>axes = [1 / 2, 0, 0, 0], buttons = []\<rparr>\<rparr>" "1 / 2"]
  by (simp add: initialGame_def js_index_def deadZone_def keyboardTurn_def)

text \<open>
  C5. Let \<open>v\<close> be the negated tracked axis 1. When its magnitude is above the dead zone,
  the forward input is \<open>-v\<close> for positive \<open>v\<close> and \<open>v \<times> 0.6\<close> for negative \<open>v\<close>,
  whatever the keys say.
\<close>

theorem C5_gamepad_forward_overrides:
  "js_index (axes (gamepadState g)) 1 = Some a1 \<Longrightarrow> v = - a1 \<Longrightarrow> \<bar>v\<bar> > deadZone \<Longrightarrow>
   (v > 0 \<longrightarrow> forwardInput g = - v) \<and> (v < 0 \<longrightarrow> forwardInput g = v * (6 / 10))"
  by (auto simp: forwardInput_def Let_def)

theorem C5_gamepad_forward_overrides_witness:
  "forwardInput (initialGame
      \<lparr>keys := \<lparr>key_w = False, key_a = False, key_s = True, key_d = False\<rparr>,
       gamepadState := \<lparr>axes = [0, - (1 / 2), 0, 0], buttons = []\<rparr>\<rparr>) = - (1 / 2) \<and>
   forwardInput (initialGame
      \<lparr>keys := \<lparr>key_w = True, key_a = False, key_s = False, key_d = False\<rparr>,
       gamepadState := \<lparr>axes = [0, 1 / 2, 0, 0], buttons = []\<rparr>\<rparr>) = - (3 / 10)"
  using C5_gamepad_forward_overrides
    [of "initialGame
      \<lparr>keys := \<lparr>key_w = False, key_a = False, key_s = True, key_d = False\<rparr>,
       gamepadState := \<lparr>axes = [0, - (1 / 2), 0, 0], buttons = []\<rparr>\<rparr>" "- (1 / 2)" "1 / 2"]
    C5_gamepad_forward_overrides
    [of "initialGame
      \<lparr>keys := \<lparr>key_w = True, key_a = False, key_s = False, key_d = False\<rparr>,
       gamepadState := \<lparr>axes = [0, 1 / 2, 0, 0], buttons = []\<rparr>\<rparr>" "1 / 2" "- (1 / 2)"]
  by (simp add: initialGame_def js_index_def deadZone_def)

text \<open>
  C6. A polled reading of magnitude below 0.15 is stored as zero, and the input of that
  axis is then the keyboard's: the turn input for axis 0, the forward input for axis 1.
\<close>

theorem C6_below_dead_zone_ignored:
  assumes "gamepadIndex g = Some idx"
    and "js_index gamepads idx = Some (Some gp)"
    and "js_index (gp_axes gp) i = Some v"
    and "i < length (axes (gamepadState g))"
    and "\<bar>v\<bar> < deadZone"
  shows "js_index (axes (gamepadState (updateGamepadInput gamepads g))) i = Some 0 \<and>
    (i = 0 \<longrightarrow> turnInput (updateGamepadInput gamepads g) = keyboardTurn (keys g)) \<and>
    (i = 1 \<longrightarrow> forwardInput (updateGamepadInput gamepads g) = keyboardForward (keys g))"
proof -
  have stored: "js_index (axes (gamepadState (updateGamepadInput gamepads g))) i = Some 0"
    using polled_axis[OF assms(1-4)] assms(5) by (simp add: snapDeadZone_def)
  have zero: "\<bar>0::real\<bar> \<le> deadZone"
    by (simp add: deadZone_def)
  have "turnInput (updateGamepadInput gamepads g) = keyboardTurn (keys g)" if "i = 0"
    using turnInput_no_override[OF _ zero, of "updateGamepadInput gamepads g"] stored that
    by (simp add: updateGamepadInput_keys)
  moreover
  have "forwardInput (updateGamepadInput gamepads g) = keyboardForward (keys g)" if "i = 1"
    using forwardInput_no_override[OF _ zero, of "updateGamepadInput gamepads g"] stored that
    by (simp add: updateGamepadInput_keys)
  ultimately show ?thesis
    using stored by blast
qed

text \<open>
  A reading of 0.10 on axis 0 while the left key is down: zero is stored and the turn
  input is the keyboard's +1.
\<close>

theorem C6_below_dead_zone_ignored_witness:
  "js_index (axes (gamepadState (updateGamepadInput
      [Some \<lparr>gp_index = 0, gp_axes = [1 / 10, 0, 0, 0], gp_buttons = []\<rparr>]
      (initialGame\<lparr>keys := \<lparr>key_w = False, key_a = True, key_s = False, key_d = False\<rparr>,
                   gamepadIndex := Some 0\<rparr>)))) 0 = Some 0 \<and>
   turnInput (updateGamepadInput
      [Some \<lparr>gp_index = 0, gp_axes = [1 / 10, 0, 0, 0], gp_buttons = []\<rparr>]
      (initialGame\<lparr>keys := \<lparr>key_w = False, key_a = True, key_s = False, key_d = False\<rparr>,
                   gamepadIndex := Some 0\<rparr>)) = 1"
  using C6_below_dead_zone_ignored
    [of "initialGame\<lparr>keys := \<lparr>key_w = False, key_a = True, key_s = False, key_d = False\<rparr>,
                     gamepadIndex := Some 0\<rparr>"
        0 "[Some \<lparr>gp_index = 0, gp_axes = [1 / 10, 0, 0, 0], gp_buttons = []\<rparr>]"
        "\<lparr>gp_index = 0, gp_axes = [1 / 10, 0, 0, 0], gp_buttons = []\<rparr>" 0 "1 / 10"]
  by (simp add: initialGame_def js_index_def deadZone_def keyboardTurn_def)

text \<open>
  C10. A polled reading of magnitude exactly 0.15 is stored unchanged, since the snap
  tests for strictly less, and it does not override the keyboard, since the override tests
  for strictly greater: the input of that axis is the keyboard's.
\<close>

theorem C10_exactly_dead_zone_keeps_keyboard:
  assumes "gamepadIndex g = Some idx"
    and "js_index gamepads idx = Some (Some gp)"
    and "js_index (gp_axes gp) i = Some v"
    and "i < length (axes (gamepadState g))"
    and "\<bar>v\<bar> = deadZone"
  shows "js_index (axes (gamepadState (updateGamepadInput gamepads g))) i = Some v \<and>
    (i = 0 \<longrightarrow> turnInput (updateGamepadInput gamepads g) = keyboardTurn (keys g)) \<and>
    (i = 1 \<longrightarrow> forwardInput (updateGamepadInput gamepads g) = keyboardForward (keys g))"
proof -
  have stored: "js_index (axes (gamepadState (updateGamepadInput gamepads g))) i = Some v"
    using polled_axis[OF assms(1-4)] assms(5) by (simp add: snapDeadZone_def)
  have bound: "\<bar>v\<bar> \<le> deadZone"
    using assms(5) by simp
  have "turnInput (updateGamepadInput gamepads g) = keyboardTurn (keys g)" if "i = 0"
    using turnInput_no_override[OF _ bound, of "updateGamepadInput gamepads g"] stored that
    by (simp add: updateGamepadInput_keys)
  moreover
  have "forwardInput (updateGamepadInput gamepads g) = keyboardForward (keys g)" if "i = 1"
    using forwardInput_no_override[OF _ bound, of "updateGamepadInput gamepads g"] stored that
    by (simp add: updateGamepadInput_keys)
  ultimately show ?thesis
    using stored by blast
qed

text \<open>
  A reading of -0.15 on axis 1 while the forward key is down: -0.15 is stored and the
  forward input is the keyboard's -1.
\<close>

theorem C10_exactly_dead_zone_keeps_keyboard_witness:
  "js_index (axes (gamepadState (updateGamepadInput
      [Some \<lparr>gp_index = 0, gp_axes = [0, - (15 / 100), 0, 0], gp_buttons = []\<rparr>]
      (initialGame\<lparr>keys := \<lparr>key_w = True, key_a = False, key_s = False, key_d = False\<rparr>,
                   gamepadIndex := Some 0\<rparr>)))) 1 = Some (- (15 / 100)) \<and>
   forwardInput (updateGamepadInput
      [Some \<lparr>gp_index = 0, gp_axes = [0, - (15 / 100), 0, 0], gp_buttons = []\<rparr>]
      (initialGame\<lparr>keys := \<lparr>key_w = True, key_a = False, key_s = False, key_d = False\<rparr>,
                   gamepadIndex := Some 0\<rparr>)) = - 1"
  using C10_exactly_dead_zone_keeps_keyboard
    [of "initialGame\<lparr>keys := \<lparr>key_w = True, key_a = False, key_s = False, key_d = False\<rparr>,
                     gamepadIndex := Some 0\<rparr>"
        0 "[Some \<lparr>gp_index = 0, gp_axes = [0, - (15 / 100), 0, 0], gp_buttons = []\<rparr>]"
        "\<lparr>gp_index = 0, gp_axes = [0, - (15 / 100), 0, 0], gp_buttons = []\<rparr>" 1 "- (15 / 100)"]
  by (simp add: initialGame_def js_index_def deadZone_def keyboardForward_def)

subsection \<open>Kinematics\<close>












subsection \<open>The boundary, when the arithmetic can overflow\<close>

lemma clamp_js_cases:
  "lo \<le> hi \<Longrightarrow>
   MathUtils_clamp_js v (Num lo) (Num hi) =
     (case v of NaN \<Rightarrow> NaN | PosInf \<Rightarrow> Num hi | NegInf \<Rightarrow> Num lo
      | Num r \<Rightarrow> Num (max lo (min hi r)))"
  by (cases v) (auto simp: MathUtils_clamp_js_def Math_max_def Math_min_def)

lemma clamp_js_within:
  assumes "v \<noteq> NaN"
  shows "withinBoundary (MathUtils_clamp_js v (Num (- boundary)) (Num boundary))"
proof -
  have "- boundary \<le> boundary"
    by (simp add: boundary_def worldSize_def)
  from clamp_js_cases[OF this, of v] assms show ?thesis
    by (cases v) (auto simp: withinBoundary_def boundary_def worldSize_def)
qed

lemma clamp_js_NaN: "MathUtils_clamp_js NaN lo hi = NaN"
  by (simp add: MathUtils_clamp_js_def Math_max_def Math_min_def)

lemma position_boundaryChecks_js:
  "jposition (boundaryChecks_js c) =
     \<lparr>jvec_x = MathUtils_clamp_js (jvec_x (jposition c)) (Num (- boundary)) (Num boundary),
      jvec_y = Num (1 / 2),
      jvec_z = MathUtils_clamp_js (jvec_z (jposition c)) (Num (- boundary)) (Num boundary)\<rparr>"
  by (simp add: boundaryChecks_js_def Let_def)

lemma overflowLimit_large: "(1000000::real) < overflowLimit"
proof -
  have "(2::real) ^ 970 * 2 \<le> 2 ^ 1024"
    by simp
  moreover have "(1000000::real) < 2 ^ 970"
    by simp
  ultimately show ?thesis
    unfolding overflowLimit_def by linarith
qed

lemma js_result_Num: "\<bar>r\<bar> < overflowLimit \<Longrightarrow> js_result r = Num r"
  by (auto simp: js_result_def)

lemma finiteWithin_Num [simp]: "finiteWithin k (Num r) \<longleftrightarrow> \<bar>r\<bar> \<le> k"
  by (simp add: finiteWithin_def)

lemma finiteWithinE:
  assumes "finiteWithin k v"
  obtains r where "v = Num r" "\<bar>r\<bar> \<le> k"
  using assms by (cases v) (auto simp: finiteWithin_def)

lemma finiteWithin_mono: "finiteWithin k v \<Longrightarrow> k \<le> k' \<Longrightarrow> finiteWithin k' v"
  by (cases v) (auto simp: finiteWithin_def)

lemma finiteWithin_mul:
  assumes "finiteWithin a x" and "finiteWithin b y" and "a * b \<le> k" and "k < overflowLimit"
  shows "finiteWithin k (js_mul x y)"
proof -
  from assms(1) obtain r where x: "x = Num r" "\<bar>r\<bar> \<le> a" by (rule finiteWithinE)
  from assms(2) obtain s where y: "y = Num s" "\<bar>s\<bar> \<le> b" by (rule finiteWithinE)
  have "\<bar>r * s\<bar> \<le> a * b"
    unfolding abs_mult using x(2) y(2) by (intro mult_mono) auto
  with assms(3,4) x(1) y(1) show ?thesis
    by (simp add: js_result_Num)
qed

lemma finiteWithin_add:
  assumes "finiteWithin a x" and "finiteWithin b y" and "a + b \<le> k" and "k < overflowLimit"
  shows "finiteWithin k (js_add x y)"
proof -
  from assms(1) obtain r where x: "x = Num r" "\<bar>r\<bar> \<le> a" by (rule finiteWithinE)
  from assms(2) obtain s where y: "y = Num s" "\<bar>s\<bar> \<le> b" by (rule finiteWithinE)
  have "\<bar>r + s\<bar> \<le> a + b"
    using x(2) y(2) by linarith
  with assms(3,4) x(1) y(1) show ?thesis
    by (simp add: js_result_Num)
qed

lemma finiteWithin_sub:
  assumes "finiteWithin a x" and "finiteWithin b y" and "a + b \<le> k" and "k < overflowLimit"
  shows "finiteWithin k (js_sub x y)"
proof -
  from assms(1) obtain r where x: "x = Num r" "\<bar>r\<bar> \<le> a" by (rule finiteWithinE)
  from assms(2) obtain s where y: "y = Num s" "\<bar>s\<bar> \<le> b" by (rule finiteWithinE)
  have "\<bar>r + - s\<bar> \<le> a + b"
    using x(2) y(2) by linarith
  with assms(3,4) x(1) y(1) show ?thesis
    by (simp add: js_sub_def js_result_Num)
qed

lemma rotation_finite:
  "finiteWithin 1 (jquat_x (setFromAxisAngle_js yAxis_js (Num a))) \<and>
   finiteWithin 1 (jquat_y (setFromAxisAngle_js yAxis_js (Num a))) \<and>
   finiteWithin 1 (jquat_z (setFromAxisAngle_js yAxis_js (Num a))) \<and>
   finiteWithin 1 (jquat_w (setFromAxisAngle_js yAxis_js (Num a)))"
proof -
  have "js_result (sin (a / 2)) = Num (sin (a / 2))"
    using abs_sin_le_one[of "a / 2"] overflowLimit_large by (intro js_result_Num) linarith
  moreover have "js_result 0 = Num 0"
    using overflowLimit_large by (intro js_result_Num) simp
  ultimately show ?thesis
    by (simp add: setFromAxisAngle_js_def yAxis_js_def Let_def)
qed

lemma multiply_finite:
  assumes "finiteWithin 1 (jquat_x a)" "finiteWithin 1 (jquat_y a)"
    "finiteWithin 1 (jquat_z a)" "finiteWithin 1 (jquat_w a)"
    "finiteWithin 1 (jquat_x b)" "finiteWithin 1 (jquat_y b)"
    "finiteWithin 1 (jquat_z b)" "finiteWithin 1 (jquat_w b)"
  shows "finiteWithin 4 (jquat_x (multiplyQuaternions_js a b)) \<and>
   finiteWithin 4 (jquat_y (multiplyQuaternions_js a b)) \<and>
   finiteWithin 4 (jquat_z (multiplyQuaternions_js a b)) \<and>
   finiteWithin 4 (jquat_w (multiplyQuaternions_js a b))"
proof -
  note lim = overflowLimit_large
  have m: "finiteWithin 1 (js_mul x y)" if "finiteWithin 1 x" "finiteWithin 1 y" for x y
    by (rule finiteWithin_mul[where a = 1 and b = 1]) (use that lim in auto)
  have s: "finiteWithin 4 (js_sub (js_add (js_add p q) r) t)"
    if "finiteWithin 1 p" "finiteWithin 1 q" "finiteWithin 1 r" "finiteWithin 1 t" for p q r t
  proof -
    have two: "finiteWithin 2 (js_add p q)"
      by (rule finiteWithin_add[where a = 1 and b = 1]) (use that lim in auto)
    have three: "finiteWithin 3 (js_add (js_add p q) r)"
      by (rule finiteWithin_add[where a = 2 and b = 1]) (use two that lim in auto)
    show ?thesis
      by (rule finiteWithin_sub[where a = 3 and b = 1]) (use three that lim in auto)
  qed
  have s': "finiteWithin 4 (js_sub (js_sub (js_sub p q) r) t)"
    if "finiteWithin 1 p" "finiteWithin 1 q" "finiteWithin 1 r" "finiteWithin 1 t" for p q r t
  proof -
    have two: "finiteWithin 2 (js_sub p q)"
      by (rule finiteWithin_sub[where a = 1 and b = 1]) (use that lim in auto)
    have three: "finiteWithin 3 (js_sub (js_sub p q) r)"
      by (rule finiteWithin_sub[where a = 2 and b = 1]) (use two that lim in auto)
    show ?thesis
      by (rule finiteWithin_sub[where a = 3 and b = 1]) (use three that lim in auto)
  qed
  show ?thesis
    unfolding multiplyQuaternions_js_def using assms by (simp add: m s s')
qed

lemma forward_axis_finite:
  assumes "finiteWithin 4 (jquat_x q)" "finiteWithin 4 (jquat_y q)"
    "finiteWithin 4 (jquat_z q)" "finiteWithin 4 (jquat_w q)"
  shows "finiteWithin 1000 (jvec_x (applyQuaternion_js zAxis_js q)) \<and>
   finiteWithin 1000 (jvec_y (applyQuaternion_js zAxis_js q)) \<and>
   finiteWithin 1000 (jvec_z (applyQuaternion_js zAxis_js q))"
proof -
  note lim = overflowLimit_large
  have t: "finiteWithin 16 (js_mul (Num 2) (js_sub (js_mul u (Num v1)) (js_mul w (Num v2))))"
    if "finiteWithin 4 u" "finiteWithin 4 w" "\<bar>v1\<bar> \<le> 1" "\<bar>v2\<bar> \<le> 1" for u w v1 v2
  proof -
    have l: "finiteWithin 4 (js_mul u (Num v1))"
      by (rule finiteWithin_mul[where a = 4 and b = 1]) (use that lim in auto)
    have r: "finiteWithin 4 (js_mul w (Num v2))"
      by (rule finiteWithin_mul[where a = 4 and b = 1]) (use that lim in auto)
    have d: "finiteWithin 8 (js_sub (js_mul u (Num v1)) (js_mul w (Num v2)))"
      by (rule finiteWithin_sub[where a = 4 and b = 4]) (use l r lim in auto)
    show ?thesis
      by (rule finiteWithin_mul[where a = 2 and b = 8]) (use d lim in auto)
  qed
  have c: "finiteWithin 1000 (js_sub (js_add (js_add (Num v) (js_mul a1 t1)) (js_mul a2 t2)) (js_mul a3 t3))"
    if "\<bar>v\<bar> \<le> 1" "finiteWithin 4 a1" "finiteWithin 4 a2" "finiteWithin 4 a3"
      "finiteWithin 16 t1" "finiteWithin 16 t2" "finiteWithin 16 t3" for v a1 a2 a3 t1 t2 t3
  proof -
    have p1: "finiteWithin 64 (js_mul a1 t1)"
      by (rule finiteWithin_mul[where a = 4 and b = 16]) (use that lim in auto)
    have p2: "finiteWithin 64 (js_mul a2 t2)"
      by (rule finiteWithin_mul[where a = 4 and b = 16]) (use that lim in auto)
    have p3: "finiteWithin 64 (js_mul a3 t3)"
      by (rule finiteWithin_mul[where a = 4 and b = 16]) (use that lim in auto)
    have q1: "finiteWithin 65 (js_add (Num v) (js_mul a1 t1))"
      by (rule finiteWithin_add[where a = 1 and b = 64]) (use that(1) p1 lim in auto)
    have q2: "finiteWithin 129 (js_add (js_add (Num v) (js_mul a1 t1)) (js_mul a2 t2))"
      by (rule finiteWithin_add[where a = 65 and b = 64]) (use q1 p2 lim in auto)
    show ?thesis
      by (rule finiteWithin_sub[where a = 129 and b = 64]) (use q2 p3 lim in auto)
  qed
  show ?thesis
    unfolding applyQuaternion_js_def zAxis_js_def Let_def using assms
    by (simp add: t c)
qed

text \<open>
  No NaN comes out of the rotation and the translation when the position is finite, the
  components of the orientation are within [-1, 1], the inputs are within [-1, 1] and
  \<open>10 \<times> \<Delta>t\<close> stays below the overflow threshold: every intermediate product and sum
  is then finite, up to the last sum, which is finite or infinite.
\<close>

lemma js_result_not_NaN: "js_result r \<noteq> NaN"
  by (simp add: js_result_def)

lemma js_add_Num_not_NaN: "y \<noteq> NaN \<Longrightarrow> js_add (Num a) y \<noteq> NaN"
  by (cases y) (simp_all add: js_result_not_NaN)

lemma inputs_bounded:
  assumes "\<forall>a \<in> set (axes (gamepadState g)). \<bar>a\<bar> \<le> 1"
  shows "\<bar>forwardInput g\<bar> \<le> 1 \<and> \<bar>turnInput g\<bar> \<le> 1"
proof -
  have k: "\<bar>keyboardForward (keys g)\<bar> \<le> 1" "\<bar>keyboardTurn (keys g)\<bar> \<le> 1"
    by (simp_all add: keyboardForward_def keyboardTurn_def Let_def)
  have a: "\<bar>v\<bar> \<le> 1" if "js_index (axes (gamepadState g)) i = Some v" for i v
    using that assms by (auto simp: js_index_def split: if_splits)
  have "\<bar>forwardInput g\<bar> \<le> 1"
    using k(1) a[of 1] by (auto simp: forwardInput_def Let_def split: option.splits)
  moreover have "\<bar>turnInput g\<bar> \<le> 1"
    using k(2) a[of 0] by (auto simp: turnInput_def split: option.splits)
  ultimately show ?thesis by simp
qed

lemma applyInput_js_not_NaN:
  assumes q: "finiteWithin 1 (jquat_x (jquaternion c))" "finiteWithin 1 (jquat_y (jquaternion c))"
      "finiteWithin 1 (jquat_z (jquaternion c))" "finiteWithin 1 (jquat_w (jquaternion c))"
    and p: "jvec_x (jposition c) = Num px" "jvec_z (jposition c) = Num pz"
    and dt: "0 \<le> dt" "10 * dt < overflowLimit"
    and inp: "\<bar>fwd\<bar> \<le> 1" "\<bar>turn\<bar> \<le> 1"
  shows "jvec_x (jposition (applyInput_js (Num dt) fwd turn c)) \<noteq> NaN \<and>
    jvec_z (jposition (applyInput_js (Num dt) fwd turn c)) \<noteq> NaN"
proof -
  note lim = overflowLimit_large
  define c1 where "c1 = (if turn \<noteq> 0
    then rotateY_js c (js_mul (js_mul (Num turnSpeed) (Num dt)) (Num turn)) else c)"
  have pi_dt: "\<bar>pi * dt\<bar> < overflowLimit"
  proof -
    have "pi * dt \<le> 10 * dt"
      using dt(1) pi_less_4 by (intro mult_right_mono) auto
    with dt show ?thesis by simp
  qed
  have "\<bar>pi * dt * turn\<bar> \<le> \<bar>pi * dt\<bar> * 1"
    unfolding abs_mult[of "pi * dt" turn] using inp(2) by (intro mult_left_mono) auto
  with pi_dt have angle: "js_mul (js_mul (Num turnSpeed) (Num dt)) (Num turn) = Num (pi * dt * turn)"
    by (simp add: turnSpeed_def js_result_Num)
  have pos1: "jposition c1 = jposition c"
    by (simp add: c1_def rotateY_js_def)
  have q1c: "finiteWithin 4 (jquat_x (jquaternion c1)) \<and> finiteWithin 4 (jquat_y (jquaternion c1)) \<and>
    finiteWithin 4 (jquat_z (jquaternion c1)) \<and> finiteWithin 4 (jquat_w (jquaternion c1))"
  proof (cases "turn = 0")
    case True
    then show ?thesis
      using q by (auto simp: c1_def intro: finiteWithin_mono)
  next
    case False
    then have "jquaternion c1 = multiplyQuaternions_js (jquaternion c)
        (setFromAxisAngle_js yAxis_js (Num (pi * dt * turn)))"
      unfolding c1_def angle by (simp add: rotateY_js_def)
    with multiply_finite[OF q, of "setFromAxisAngle_js yAxis_js (Num (pi * dt * turn))"]
      rotation_finite[of "pi * dt * turn"]
    show ?thesis
      by simp
  qed
  then have q1: "finiteWithin 4 (jquat_x (jquaternion c1))" "finiteWithin 4 (jquat_y (jquaternion c1))"
    "finiteWithin 4 (jquat_z (jquaternion c1))" "finiteWithin 4 (jquat_w (jquaternion c1))"
    by simp_all
  from forward_axis_finite[OF q1] obtain ax ay az where
    axis: "applyQuaternion_js zAxis_js (jquaternion c1) = \<lparr>jvec_x = Num ax, jvec_y = ay, jvec_z = Num az\<rparr>"
    by (cases "applyQuaternion_js zAxis_js (jquaternion c1)") (auto elim!: finiteWithinE)
  have "\<bar>10 * dt * fwd\<bar> \<le> \<bar>10 * dt\<bar> * 1"
    unfolding abs_mult[of "10 * dt" fwd] using inp(1) by (intro mult_left_mono) auto
  with dt have dist: "js_mul (js_mul (Num carSpeed) (Num dt)) (Num fwd) = Num (10 * dt * fwd)"
    by (simp add: carSpeed_def js_result_Num)
  have result: "applyInput_js (Num dt) fwd turn c =
      (if fwd \<noteq> 0 then translateZ_js c1 (Num (10 * dt * fwd)) else c1)"
    unfolding applyInput_js_def Let_def c1_def dist by (rule refl)
  show ?thesis
    unfolding result
    by (simp add: translateZ_js_def add_v_js_def multiplyScalar_js_def axis pos1 p
        js_add_Num_not_NaN js_result_not_NaN)
qed

text \<open>
  C1 as stated fails for \<open>\<Delta>t = 10^308\<close> with the forward key down, from the initial pose:
  \<open>carSpeed * deltaTime\<close> overflows to Infinity, the distance is -Infinity, the x
  component of the step is \<open>0 \<times> -Infinity\<close>, which is NaN, and the clamp returns NaN.
\<close>

theorem C1_overflow_counterexample:
  "jvec_x (jposition (updateCar_js (Num (10 ^ 308))
      (initialGame\<lparr>keys := \<lparr>key_w = True, key_a = False, key_s = False, key_d = False\<rparr>\<rparr>)
      initialCar_js)) = NaN \<and>
   \<not> withinBoundary (jvec_x (jposition (updateCar_js (Num (10 ^ 308))
      (initialGame\<lparr>keys := \<lparr>key_w = True, key_a = False, key_s = False, key_d = False\<rparr>\<rparr>)
      initialCar_js)))"
proof -
  have inputs: "forwardInput (initialGame\<lparr>keys := \<lparr>key_w = True, key_a = False, key_s = False, key_d = False\<rparr>\<rparr>) = - 1"
    "turnInput (initialGame\<lparr>keys := \<lparr>key_w = True, key_a = False, key_s = False, key_d = False\<rparr>\<rparr>) = 0"
    by (simp_all add: forwardInput_def turnInput_def keyboardForward_def keyboardTurn_def
        js_index_def deadZone_def initialGame_def Let_def)
  have "jvec_x (jposition (updateCar_js (Num (10 ^ 308))
      (initialGame\<lparr>keys := \<lparr>key_w = True, key_a = False, key_s = False, key_d = False\<rparr>\<rparr>)
      initialCar_js)) = NaN"
    by (simp add: updateCar_js_def inputs applyInput_js_def position_boundaryChecks_js
        translateZ_js_def applyQuaternion_js_def multiplyScalar_js_def add_v_js_def zAxis_js_def
        initialCar_js_def js_sub_def js_result_def overflowLimit_def inf_times_def carSpeed_def
        turnSpeed_def clamp_js_NaN Let_def)
  then show ?thesis
    by (simp add: withinBoundary_def)
qed

text \<open>
  C1, amended. Whatever the pose before, the elapsed time and the inputs, after
  \<open>updateCar\<close> the car's y is 0.5, and its x and its z each lie between -(worldSize/2 - 2)
  and worldSize/2 - 2 unless the rotation and translation left NaN in that coordinate,
  which the clamp returns as it is. They left no NaN, and x and z are within the
  boundary, whenever the position before is finite, the components of the orientation and
  the tracked axes are within [-1, 1], and \<open>\<Delta>t \<ge> 0\<close> with \<open>10 \<times> \<Delta>t\<close> below the overflow
  threshold.
\<close>

theorem C1_car_in_bounds_unless_NaN:
  "jvec_y (jposition (updateCar_js deltaTime g c)) = Num (1 / 2) \<and>
   (jvec_x (jposition (applyInput_js deltaTime (forwardInput g) (turnInput g) c)) \<noteq> NaN \<longrightarrow>
      withinBoundary (jvec_x (jposition (updateCar_js deltaTime g c)))) \<and>
   (jvec_z (jposition (applyInput_js deltaTime (forwardInput g) (turnInput g) c)) \<noteq> NaN \<longrightarrow>
      withinBoundary (jvec_z (jposition (updateCar_js deltaTime g c)))) \<and>
   (jvec_x (jposition (applyInput_js deltaTime (forwardInput g) (turnInput g) c)) = NaN \<longrightarrow>
      jvec_x (jposition (updateCar_js deltaTime g c)) = NaN) \<and>
   (jvec_z (jposition (applyInput_js deltaTime (forwardInput g) (turnInput g) c)) = NaN \<longrightarrow>
      jvec_z (jposition (updateCar_js deltaTime g c)) = NaN) \<and>
   ((\<exists>px. jvec_x (jposition c) = Num px) \<and> (\<exists>pz. jvec_z (jposition c) = Num pz) \<and>
    finiteWithin 1 (jquat_x (jquaternion c)) \<and> finiteWithin 1 (jquat_y (jquaternion c)) \<and>
    finiteWithin 1 (jquat_z (jquaternion c)) \<and> finiteWithin 1 (jquat_w (jquaternion c)) \<and>
    (\<forall>a \<in> set (axes (gamepadState g)). \<bar>a\<bar> \<le> 1) \<and>
    (\<exists>dt. deltaTime = Num dt \<and> 0 \<le> dt \<and> 10 * dt < overflowLimit) \<longrightarrow>
      withinBoundary (jvec_x (jposition (updateCar_js deltaTime g c))) \<and>
      withinBoundary (jvec_z (jposition (updateCar_js deltaTime g c))))"
proof -
  have general: "jvec_y (jposition (updateCar_js deltaTime g c)) = Num (1 / 2) \<and>
   (jvec_x (jposition (applyInput_js deltaTime (forwardInput g) (turnInput g) c)) \<noteq> NaN \<longrightarrow>
      withinBoundary (jvec_x (jposition (updateCar_js deltaTime g c)))) \<and>
   (jvec_z (jposition (applyInput_js deltaTime (forwardInput g) (turnInput g) c)) \<noteq> NaN \<longrightarrow>
      withinBoundary (jvec_z (jposition (updateCar_js deltaTime g c)))) \<and>
   (jvec_x (jposition (applyInput_js deltaTime (forwardInput g) (turnInput g) c)) = NaN \<longrightarrow>
      jvec_x (jposition (updateCar_js deltaTime g c)) = NaN) \<and>
   (jvec_z (jposition (applyInput_js deltaTime (forwardInput g) (turnInput g) c)) = NaN \<longrightarrow>
      jvec_z (jposition (updateCar_js deltaTime g c)) = NaN)"
    by (simp add: updateCar_js_def position_boundaryChecks_js clamp_js_within clamp_js_NaN)
  have finite: "withinBoundary (jvec_x (jposition (updateCar_js deltaTime g c))) \<and>
      withinBoundary (jvec_z (jposition (updateCar_js deltaTime g c)))"
    if "(\<exists>px. jvec_x (jposition c) = Num px) \<and> (\<exists>pz. jvec_z (jposition c) = Num pz) \<and>
    finiteWithin 1 (jquat_x (jquaternion c)) \<and> finiteWithin 1 (jquat_y (jquaternion c)) \<and>
    finiteWithin 1 (jquat_z (jquaternion c)) \<and> finiteWithin 1 (jquat_w (jquaternion c)) \<and>
    (\<forall>a \<in> set (axes (gamepadState g)). \<bar>a\<bar> \<le> 1) \<and>
    (\<exists>dt. deltaTime = Num dt \<and> 0 \<le> dt \<and> 10 * dt < overflowLimit)"
  proof -
    from that obtain px pz dt where p: "jvec_x (jposition c) = Num px" "jvec_z (jposition c) = Num pz"
      and dt: "deltaTime = Num dt" "0 \<le> dt" "10 * dt < overflowLimit"
      by blast
    from that have q: "finiteWithin 1 (jquat_x (jquaternion c))" "finiteWithin 1 (jquat_y (jquaternion c))"
      "finiteWithin 1 (jquat_z (jquaternion c))" "finiteWithin 1 (jquat_w (jquaternion c))"
      by simp_all
    from that have "\<forall>a \<in> set (axes (gamepadState g)). \<bar>a\<bar> \<le> 1"
      by simp
    from inputs_bounded[OF this] have inp: "\<bar>forwardInput g\<bar> \<le> 1" "\<bar>turnInput g\<bar> \<le> 1"
      by simp_all
    from applyInput_js_not_NaN[OF q p dt(2,3) inp] general show ?thesis
      unfolding dt(1) by blast
  qed
  from general finite show ?thesis
    by blast
qed

text \<open>
  The forward key held for a thousand seconds in one frame, from the initial pose: the
  car stops at the boundary.
\<close>

theorem C1_car_in_bounds_unless_NaN_witness:
  "withinBoundary (jvec_x (jposition (updateCar_js (Num 1000)
      (initialGame\<lparr>keys := \<lparr>key_w = True, key_a = False, key_s = False, key_d = False\<rparr>\<rparr>)
      initialCar_js))) \<and>
   withinBoundary (jvec_z (jposition (updateCar_js (Num 1000)
      (initialGame\<lparr>keys := \<lparr>key_w = True, key_a = False, key_s = False, key_d = False\<rparr>\<rparr>)
      initialCar_js))) \<and>
   jposition (updateCar_js (Num 1000)
      (initialGame\<lparr>keys := \<lparr>key_w = True, key_a = False, key_s = False, key_d = False\<rparr>\<rparr>)
      initialCar_js) = \<lparr>jvec_x = Num 0, jvec_y = Num (1 / 2), jvec_z = Num (- 48)\<rparr>"
proof -
  let ?g = "initialGame\<lparr>keys := \<lparr>key_w = True, key_a = False, key_s = False, key_d = False\<rparr>\<rparr>"
  have pose: "(\<exists>px. jvec_x (jposition initialCar_js) = Num px) \<and>
    (\<exists>pz. jvec_z (jposition initialCar_js) = Num pz) \<and>
    finiteWithin 1 (jquat_x (jquaternion initialCar_js)) \<and>
    finiteWithin 1 (jquat_y (jquaternion initialCar_js)) \<and>
    finiteWithin 1 (jquat_z (jquaternion initialCar_js)) \<and>
    finiteWithin 1 (jquat_w (jquaternion initialCar_js))"
    by (simp add: initialCar_js_def)
  have axes: "\<forall>a \<in> set (axes (gamepadState ?g)). \<bar>a\<bar> \<le> 1"
    by (simp add: initialGame_def)
  have time: "\<exists>dt. Num 1000 = Num dt \<and> 0 \<le> dt \<and> 10 * dt < overflowLimit"
    using overflowLimit_large by (intro exI[of _ 1000]) simp
  from C1_car_in_bounds_unless_NaN[of "Num 1000" ?g initialCar_js] pose axes time
  have within: "withinBoundary (jvec_x (jposition (updateCar_js (Num 1000) ?g initialCar_js))) \<and>
      withinBoundary (jvec_z (jposition (updateCar_js (Num 1000) ?g initialCar_js)))"
    by blast
  have inputs: "forwardInput ?g = - 1" "turnInput ?g = 0"
    by (simp_all add: forwardInput_def turnInput_def keyboardForward_def keyboardTurn_def
        js_index_def deadZone_def initialGame_def Let_def)
  have "jposition (updateCar_js (Num 1000) ?g initialCar_js) =
      \<lparr>jvec_x = Num 0, jvec_y = Num (1 / 2), jvec_z = Num (- 48)\<rparr>"
    by (simp add: updateCar_js_def inputs applyInput_js_def position_boundaryChecks_js
        translateZ_js_def applyQuaternion_js_def multiplyScalar_js_def add_v_js_def zAxis_js_def
        initialCar_js_def js_sub_def js_result_def overflowLimit_def inf_times_def carSpeed_def
        turnSpeed_def clamp_js_cases boundary_def worldSize_def Let_def)
  with within show ?thesis
    by simp
qed

subsection \<open>Rotation and translation\<close>



subsection \<open>Camera\<close>

lemma lerp_same: "lerp v v alpha = v"
  by (simp add: lerp_def)

lemma updateCamera_at_rest:
  "camera_position g = desiredCameraPosition (car g) \<Longrightarrow> updateCamera g = g"
  by (simp add: updateCamera_def lerp_same)

text \<open>
  C9. A camera that is at the desired position, the car's position plus the offset
  (0, 5, 12) rotated by the car's orientation, stays there under a camera update, and
  under any number of them while the car does not move.
\<close>

theorem C9_camera_fixed_point:
  assumes "camera_position g =
    add_v (position (car g))
      (applyQuaternion \<lparr>vec_x = 0, vec_y = 5, vec_z = 12\<rparr> (quaternion (car g)))"
  shows "camera_position (updateCamera g) = camera_position g \<and>
    car (updateCamera g) = car g \<and>
    camera_position ((updateCamera ^^ n) g) = camera_position g"
proof -
  have rest: "updateCamera g = g"
    using assms by (simp add: updateCamera_at_rest desiredCameraPosition_def)
  have "(updateCamera ^^ k) g = g" for k
    by (induction k) (simp_all add: rest)
  then show ?thesis
    using rest by simp
qed

text \<open>Behind the car in its initial pose, the desired position is (0, 5.5, 12).\<close>

theorem C9_camera_fixed_point_witness:
  "camera_position (updateCamera
      (initialGame\<lparr>camera_position := \<lparr>vec_x = 0, vec_y = 11 / 2, vec_z = 12\<rparr>\<rparr>))
     = \<lparr>vec_x = 0, vec_y = 11 / 2, vec_z = 12\<rparr>"
  using C9_camera_fixed_point
    [of "initialGame\<lparr>camera_position := \<lparr>vec_x = 0, vec_y = 11 / 2, vec_z = 12\<rparr>\<rparr>" 1]
  by (simp add: initialGame_def newMesh_def add_v_def applyQuaternion_def Let_def)

subsection \<open>Losing the gamepad\<close>

lemma updateGamepadInput_untracked:
  "gamepadIndex g = None \<Longrightarrow> updateGamepadInput gamepads g = g"
  by (simp add: updateGamepadInput_def)

text \<open>With no gamepad tracked, a frame leaves the keys and the tracked axes as they are.\<close>

lemma animate_untracked:
  "gamepadIndex g = None \<Longrightarrow>
   gamepadIndex (animate deltaTime gamepads g) = None \<and>
   gamepadState (animate deltaTime gamepads g) = gamepadState g \<and>
   keys (animate deltaTime gamepads g) = keys g"
  by (simp add: animate_def updateGamepadInput_untracked updateCar_def updateCamera_def)

text \<open>
  The disconnect event of the tracked gamepad clears the index and zeroes the axes, and
  the inputs are the keyboard's from then on.
\<close>

lemma disconnect_event_resets:
  assumes "gamepadIndex g = Some (gp_index gamepad)"
  shows "gamepadIndex (handleGamepadDisconnected gamepad g) = None \<and>
    axes (gamepadState (handleGamepadDisconnected gamepad g)) = [0, 0, 0, 0] \<and>
    turnInput (handleGamepadDisconnected gamepad g) = keyboardTurn (keys g) \<and>
    forwardInput (handleGamepadDisconnected gamepad g) = keyboardForward (keys g)"
  using assms
  by (simp add: handleGamepadDisconnected_def turnInput_def forwardInput_def js_index_def
      deadZone_def Let_def)

lemma keyboard_only_frame:
  assumes "gamepadIndex g = None" and "axes (gamepadState g) = [0, 0, 0, 0]"
  shows "gamepadIndex (animate deltaTime gamepads g) = None \<and>
    axes (gamepadState (animate deltaTime gamepads g)) = [0, 0, 0, 0] \<and>
    car (animate deltaTime gamepads g) =
      boundaryChecks (applyInput deltaTime (keyboardForward (keys g)) (keyboardTurn (keys g)) (car g))"
  using assms
  by (simp add: animate_def updateGamepadInput_untracked updateCar_def updateCamera_def
      turnInput_def forwardInput_def js_index_def deadZone_def Let_def)

text \<open>
  C7, where the code departs from it. A gamepad is connected and polled with its stick
  held at 0.5 on axis 0; in the next poll the device is missing from the list. The index
  is cleared, but the tracked axes keep the last reading: with no key down the turn input
  is -0.5 in this frame and in the next, not the keyboard's 0. A disconnect event that
  arrives afterwards no longer matches the cleared index and resets nothing.
\<close>

theorem C7_lost_gamepad_keeps_axes:
  "gamepadIndex (updateGamepadInput
       [Some \<lparr>gp_index = 0, gp_axes = [1 / 2, 0, 0, 0], gp_buttons = []\<rparr>]
       (handleGamepadConnected \<lparr>gp_index = 0, gp_axes = [1 / 2, 0, 0, 0], gp_buttons = []\<rparr>
          initialGame)) = Some 0 \<and>
   gamepadIndex (updateGamepadInput [None]
       (updateGamepadInput [Some \<lparr>gp_index = 0, gp_axes = [1 / 2, 0, 0, 0], gp_buttons = []\<rparr>]
          (handleGamepadConnected \<lparr>gp_index = 0, gp_axes = [1 / 2, 0, 0, 0], gp_buttons = []\<rparr>
             initialGame))) = None \<and>
   axes (gamepadState (updateGamepadInput [None]
       (updateGamepadInput [Some \<lparr>gp_index = 0, gp_axes = [1 / 2, 0, 0, 0], gp_buttons = []\<rparr>]
          (handleGamepadConnected \<lparr>gp_index = 0, gp_axes = [1 / 2, 0, 0, 0], gp_buttons = []\<rparr>
             initialGame)))) = [1 / 2, 0, 0, 0] \<and>
   keyboardTurn (keys (updateGamepadInput [None]
       (updateGamepadInput [Some \<lparr>gp_index = 0, gp_axes = [1 / 2, 0, 0, 0], gp_buttons = []\<rparr>]
          (handleGamepadConnected \<lparr>gp_index = 0, gp_axes = [1 / 2, 0, 0, 0], gp_buttons = []\<rparr>
             initialGame)))) = 0 \<and>
   turnInput (updateGamepadInput [None]
       (updateGamepadInput [Some \<lparr>gp_index = 0, gp_axes = [1 / 2, 0, 0, 0], gp_buttons = []\<rparr>]
          (handleGamepadConnected \<lparr>gp_index = 0, gp_axes = [1 / 2, 0, 0, 0], gp_buttons = []\<rparr>
             initialGame))) = - (1 / 2) \<and>
   turnInput (animate 1 [None] (updateGamepadInput [None]
       (updateGamepadInput [Some \<lparr>gp_index = 0, gp_axes = [1 / 2, 0, 0, 0], gp_buttons = []\<rparr>]
          (handleGamepadConnected \<lparr>gp_index = 0, gp_axes = [1 / 2, 0, 0, 0], gp_buttons = []\<rparr>
             initialGame)))) = - (1 / 2) \<and>
   axes (gamepadState (handleGamepadDisconnected
       \<lparr>gp_index = 0, gp_axes = [1 / 2, 0, 0, 0], gp_buttons = []\<rparr>
       (updateGamepadInput [None]
         (updateGamepadInput [Some \<lparr>gp_index = 0, gp_axes = [1 / 2, 0, 0, 0], gp_buttons = []\<rparr>]
            (handleGamepadConnected \<lparr>gp_index = 0, gp_axes = [1 / 2, 0, 0, 0], gp_buttons = []\<rparr>
               initialGame))))) = [1 / 2, 0, 0, 0]"
proof -
  let ?pad = "\<lparr>gp_index = 0, gp_axes = [1 / 2, 0, 0, 0], gp_buttons = []\<rparr>"
  let ?tracked = "updateGamepadInput [Some ?pad] (handleGamepadConnected ?pad initialGame)"
  let ?lost = "updateGamepadInput [None] ?tracked"
  have tracked: "?tracked = initialGame
      \<lparr>gamepadIndex := Some 0, gamepadState := \<lparr>axes = [1 / 2, 0, 0, 0], buttons = []\<rparr>\<rparr>"
    by (simp add: updateGamepadInput_def handleGamepadConnected_def initialGame_def js_index_def
        readAxes.simps snapDeadZone_def deadZone_def)
  have lost: "?lost = initialGame
      \<lparr>gamepadIndex := None, gamepadState := \<lparr>axes = [1 / 2, 0, 0, 0], buttons = []\<rparr>\<rparr>"
    unfolding tracked by (simp add: updateGamepadInput_def initialGame_def js_index_def)
  have untracked: "gamepadIndex ?lost = None"
    unfolding lost by simp
  have turn: "turnInput ?lost = - (1 / 2)"
    unfolding lost by (simp add: turnInput_def js_index_def deadZone_def initialGame_def)
  have later: "turnInput (animate 1 [None] ?lost) = - (1 / 2)"
  proof -
    from animate_untracked[OF untracked, of 1 "[None]"]
    have "gamepadState (animate 1 [None] ?lost) = gamepadState ?lost"
      and "keys (animate 1 [None] ?lost) = keys ?lost"
      by blast+
    from turnInput_same[OF this] turn show ?thesis
      by (rule trans)
  qed
  have "gamepadIndex ?tracked = Some 0"
    unfolding tracked by simp
  moreover have "axes (gamepadState ?lost) = [1 / 2, 0, 0, 0]"
    unfolding lost by simp
  moreover have "keyboardTurn (keys ?lost) = 0"
    unfolding lost by (simp add: keyboardTurn_def initialGame_def)
  moreover have "axes (gamepadState (handleGamepadDisconnected ?pad ?lost)) = [1 / 2, 0, 0, 0]"
    unfolding lost by (simp add: handleGamepadDisconnected_def)
  ultimately show ?thesis
    using untracked turn later by blast
qed

subsection \<open>Obstacles\<close>

lemma placeObstacle_accept:
  "accepted random n \<Longrightarrow>
   placeObstacle random n =
     Some (randFloatSpread (worldSize * (9 / 10)) (random n),
           randFloatSpread (worldSize * (9 / 10)) (random (n + 1)), n + 2)"
  by (subst placeObstacle.simps) (simp add: accepted_def Let_def)

lemma placeObstacle_reject:
  "\<not> accepted random n \<Longrightarrow> placeObstacle random n = placeObstacle random (n + 2)"
  by (subst placeObstacle.simps) (simp add: accepted_def Let_def)

text \<open>The \<open>while\<close> loop ends as soon as one of the pairs ahead of it is accepted.\<close>

lemma placeObstacle_returns:
  "accepted random (n + 2 * k) \<Longrightarrow> \<exists>r. placeObstacle random n = Some r"
proof (induction k arbitrary: n)
  case 0
  then show ?case by (simp add: placeObstacle_accept)
next
  case (Suc k)
  show ?case
  proof (cases "accepted random n")
    case True
    then show ?thesis by (simp add: placeObstacle_accept)
  next
    case False
    from Suc.prems have "accepted random (n + 2 + 2 * k)"
      by (simp add: add.commute add.left_commute)
    from Suc.IH[OF this] show ?thesis
      by (simp add: placeObstacle_reject[OF False])
  qed
qed

text \<open>
  What the \<open>while\<close> loop returns is an accepted pair of draws, at or after its cursor.
\<close>

lemma spread_bound:
  "0 \<le> u \<Longrightarrow> u < 1 \<Longrightarrow>
   \<bar>randFloatSpread (worldSize * (9 / 10)) u\<bar> \<le> worldSize * (9 / 10) / 2"
  by (simp add: randFloatSpread_def worldSize_def abs_le_iff)

lemma createObstaclesLoop_returns:
  assumes "\<forall>n. \<exists>k. accepted random (n + 2 * k)"
  shows "\<exists>r. createObstaclesLoop random k n obstacles = Some r"
proof (induction k arbitrary: n obstacles)
  case 0
  then show ?case by simp
next
  case (Suc k)
  from assms obtain j where "accepted random (n + 2 * j)" by blast
  from placeObstacle_returns[OF this] obtain x z m where "placeObstacle random n = Some (x, z, m)"
    by (metis prod_cases3)
  then obtain ob m' where "createObstacle random n = Some (ob, m')"
    by (simp add: createObstacle_def Let_def)
  with Suc.IH[of m' "obstacles @ [ob]"] show ?case by simp
qed

lemma placeObstacle_Some_from:
  assumes "placeObstacle random n = Some r"
  shows "\<exists>j\<ge>n. r = (randFloatSpread (worldSize * (9 / 10)) (random j),
                  randFloatSpread (worldSize * (9 / 10)) (random (j + 1)), j + 2) \<and>
             accepted random j"
proof (rule placeObstacle.raw_induct
    [where P = "\<lambda>random n r. \<exists>j\<ge>n. r = (randFloatSpread (worldSize * (9 / 10)) (random j),
                  randFloatSpread (worldSize * (9 / 10)) (random (j + 1)), j + 2) \<and>
             accepted random j", OF _ assms])
  fix f :: "(nat \<Rightarrow> real) \<Rightarrow> nat \<Rightarrow> (real \<times> real \<times> nat) option" and rnd m out
  assume IH: "\<And>rnd m out. f rnd m = Some out \<Longrightarrow>
      \<exists>j\<ge>m. out = (randFloatSpread (worldSize * (9 / 10)) (rnd j),
                  randFloatSpread (worldSize * (9 / 10)) (rnd (j + 1)), j + 2) \<and>
             accepted rnd j"
    and body: "(let x = randFloatSpread (worldSize * (9 / 10)) (rnd m);
          z = randFloatSpread (worldSize * (9 / 10)) (rnd (m + 1))
      in if 5 < \<bar>x\<bar> \<or> 5 < \<bar>z\<bar> then Some (x, z, m + 2)
         else f rnd (m + 2)) = Some out"
  show "\<exists>j\<ge>m. out = (randFloatSpread (worldSize * (9 / 10)) (rnd j),
                  randFloatSpread (worldSize * (9 / 10)) (rnd (j + 1)), j + 2) \<and>
             accepted rnd j"
  proof (cases "accepted rnd m")
    case True
    with body have "out = (randFloatSpread (worldSize * (9 / 10)) (rnd m),
                  randFloatSpread (worldSize * (9 / 10)) (rnd (m + 1)), m + 2)"
      by (auto simp: accepted_def Let_def)
    with True show ?thesis by blast
  next
    case False
    with body have "f rnd (m + 2) = Some out"
      by (auto simp: accepted_def Let_def)
    from IH[OF this] obtain j where "j \<ge> m + 2"
      and "out = (randFloatSpread (worldSize * (9 / 10)) (rnd j),
                  randFloatSpread (worldSize * (9 / 10)) (rnd (j + 1)), j + 2) \<and> accepted rnd j"
      by blast
    then show ?thesis
      by (intro exI[of _ j]) simp
  qed
qed

lemma createObstacle_draws:
  assumes "createObstacle random n = Some (ob, n')"
  shows "\<exists>j\<ge>n. n' = j + 3 \<and> drawnAt random j ob"
proof -
  from assms obtain x z m where p: "placeObstacle random n = Some (x, z, m)"
    by (auto simp: createObstacle_def split: option.splits)
  from placeObstacle_Some_from[OF p] obtain j where j: "j \<ge> n" and
    x: "x = randFloatSpread (worldSize * (9 / 10)) (random j)" and
    z: "z = randFloatSpread (worldSize * (9 / 10)) (random (j + 1))" and
    m: "m = j + 2" and acc: "accepted random j" by auto
  from assms p have ob: "ob = \<lparr>position = \<lparr>vec_x = x, vec_y = randFloat 1 4 (random m) / 2, vec_z = z\<rparr>,
      quaternion = quaternion newMesh,
      scale = \<lparr>vec_x = randFloat 1 4 (random m), vec_y = randFloat 1 4 (random m),
               vec_z = randFloat 1 4 (random m)\<rparr>\<rparr>" and n': "n' = m + 1"
    by (simp_all add: createObstacle_def Let_def newMesh_def)
  have "drawnAt random j ob"
    unfolding drawnAt_def ob using acc by (simp add: x z m)
  with j n' m show ?thesis
    by (intro exI[of _ j]) simp
qed

lemma createObstaclesLoop_draws:
  "createObstaclesLoop random k n obstacles = Some (obstacles', n') \<Longrightarrow>
   \<exists>new cursors. obstacles' = obstacles @ new \<and> length new = k \<and>
      list_all2 (drawnAt random) cursors new \<and>
      sorted_wrt (\<lambda>a b. a + 3 \<le> b) cursors \<and>
      (\<forall>c \<in> set cursors. n \<le> c)"
proof (induction k arbitrary: n obstacles)
  case 0
  then show ?case by simp
next
  case (Suc k)
  from Suc.prems obtain ob m where c: "createObstacle random n = Some (ob, m)"
    and rest: "createObstaclesLoop random k m (obstacles @ [ob]) = Some (obstacles', n')"
    by (auto split: option.splits)
  from createObstacle_draws[OF c] obtain j where j: "j \<ge> n" "m = j + 3" "drawnAt random j ob"
    by blast
  from Suc.IH[OF rest] obtain new cursors where new: "obstacles' = (obstacles @ [ob]) @ new"
    "length new = k" "list_all2 (drawnAt random) cursors new"
    "sorted_wrt (\<lambda>a b. a + 3 \<le> b) cursors" "\<forall>c \<in> set cursors. m \<le> c"
    by blast
  show ?case
    using j new by (intro exI[of _ "ob # new"] exI[of _ "j # cursors"]) auto
qed

lemma drawnAt_properties:
  assumes "drawnAt random j ob" and "\<forall>n. 0 \<le> random n \<and> random n < 1"
  shows "(\<bar>vec_x (position ob)\<bar> > 5 \<or> \<bar>vec_z (position ob)\<bar> > 5) \<and>
     \<bar>vec_x (position ob)\<bar> \<le> worldSize * (9 / 10) / 2 \<and>
     \<bar>vec_z (position ob)\<bar> \<le> worldSize * (9 / 10) / 2 \<and>
     1 \<le> vec_x (scale ob) \<and> vec_x (scale ob) \<le> 4 \<and>
     vec_y (scale ob) = vec_x (scale ob) \<and> vec_z (scale ob) = vec_x (scale ob) \<and>
     vec_y (position ob) = vec_x (scale ob) / 2"
proof -
  have s: "1 \<le> randFloat 1 4 (random (j + 2))" "randFloat 1 4 (random (j + 2)) \<le> 4"
    using assms(2)[rule_format, of "j + 2"] by (simp_all add: randFloat_def)
  have b: "\<bar>randFloatSpread (worldSize * (9 / 10)) (random i)\<bar> \<le> worldSize * (9 / 10) / 2" for i
    using assms(2)[rule_format, of i] spread_bound[of "random i"] by blast
  from assms(1) s b[of j] b[of "j + 1"] show ?thesis
    by (simp add: drawnAt_def accepted_def)
qed

lemma eventually_accepted:
  assumes "\<forall>n. \<exists>m\<ge>n. \<bar>randFloatSpread (worldSize * (9 / 10)) (random m)\<bar> > 5"
  shows "\<forall>n. \<exists>k. accepted random (n + 2 * k)"
proof
  fix n
  from assms obtain m where m: "m \<ge> n" "\<bar>randFloatSpread (worldSize * (9 / 10)) (random m)\<bar> > 5"
    by blast
  show "\<exists>k. accepted random (n + 2 * k)"
  proof (cases "even (m - n)")
    case True
    then obtain k where "m - n = 2 * k" using evenE by blast
    with m(1) have "n + 2 * k = m" by simp
    with m(2) show ?thesis by (intro exI[of _ k]) (simp add: accepted_def)
  next
    case False
    then obtain k where "m - n = 2 * k + 1" using oddE by blast
    with m(1) have "n + 2 * k + 1 = m" by simp
    with m(2) show ?thesis by (intro exI[of _ k]) (auto simp: accepted_def)
  qed
qed

text \<open>
  The hypothesis on the source is needed in the model: for a source stuck at 0.5 every
  draw is the origin and the \<open>while\<close> loop never ends.
\<close>

lemma placeObstacle_stuck: "placeObstacle (constantRandom (1 / 2)) n = None"
proof (cases "placeObstacle (constantRandom (1 / 2)) n")
  case None
  then show ?thesis .
next
  case (Some r)
  from placeObstacle_Some_from[OF this] show ?thesis
    by (auto simp: accepted_def constantRandom_def randFloatSpread_def)
qed

text \<open>
  C8. Let \<open>Math.random()\<close> return values in [0, 1) and, again and again, a value whose
  coordinate is outside the start area (it does not stay within [4/9, 5/9] for ever).
  Then generation with count 30 returns, with exactly 30 obstacles. Obstacle \<open>i\<close> is
  made from three draws of its own, at the cursors \<open>c\<close>, \<open>c + 1\<close>, \<open>c + 2\<close> with
  \<open>c = cursors ! i\<close>, and the draws of different obstacles are different calls. Its x and
  z are \<open>randFloatSpread\<close> of 90% of the world size at the first two draws, so within 45
  of the origin, with \<open>|x| > 5\<close> or \<open>|z| > 5\<close>; its scale is \<open>randFloat(1, 4)\<close> at the third
  draw on all three axes, so between 1 and 4; and its y is half its scale.
\<close>

theorem C8_obstacles_generated:
  assumes "\<forall>n. 0 \<le> random n \<and> random n < 1"
    and "\<forall>n. \<exists>m\<ge>n. \<bar>randFloatSpread (worldSize * (9 / 10)) (random m)\<bar> > 5"
  shows "\<exists>obstacles n cursors.
    createObstacles 30 random = Some (obstacles, n) \<and>
    length obstacles = 30 \<and> length cursors = 30 \<and>
    (\<forall>i<30.
       (\<bar>vec_x (position (obstacles ! i))\<bar> > 5 \<or> \<bar>vec_z (position (obstacles ! i))\<bar> > 5) \<and>
       vec_x (position (obstacles ! i)) = randFloatSpread (worldSize * (9 / 10)) (random (cursors ! i)) \<and>
       vec_z (position (obstacles ! i)) = randFloatSpread (worldSize * (9 / 10)) (random (cursors ! i + 1)) \<and>
       \<bar>vec_x (position (obstacles ! i))\<bar> \<le> worldSize * (9 / 10) / 2 \<and>
       \<bar>vec_z (position (obstacles ! i))\<bar> \<le> worldSize * (9 / 10) / 2 \<and>
       scale (obstacles ! i) =
         \<lparr>vec_x = randFloat 1 4 (random (cursors ! i + 2)),
          vec_y = randFloat 1 4 (random (cursors ! i + 2)),
          vec_z = randFloat 1 4 (random (cursors ! i + 2))\<rparr> \<and>
       1 \<le> randFloat 1 4 (random (cursors ! i + 2)) \<and>
       randFloat 1 4 (random (cursors ! i + 2)) \<le> 4 \<and>
       vec_y (position (obstacles ! i)) = randFloat 1 4 (random (cursors ! i + 2)) / 2) \<and>
    (\<forall>i j. i < j \<and> j < 30 \<longrightarrow> cursors ! i + 3 \<le> cursors ! j)"
proof -
  from createObstaclesLoop_returns[OF eventually_accepted[OF assms(2)], of 30 0 "[]"]
  obtain obstacles n where run: "createObstaclesLoop random 30 0 [] = Some (obstacles, n)"
    by auto
  from createObstaclesLoop_draws[OF run] obtain cursors where
    len: "length obstacles = 30" and
    draws: "list_all2 (drawnAt random) cursors obstacles" and
    apart: "sorted_wrt (\<lambda>a b. a + 3 \<le> b) cursors"
    by auto
  from draws len have lenc: "length cursors = 30"
    by (simp add: list_all2_lengthD)
  have each: "drawnAt random (cursors ! i) (obstacles ! i)" if "i < 30" for i
    using draws that lenc by (simp add: list_all2_conv_all_nth)
  have props: "(\<bar>vec_x (position (obstacles ! i))\<bar> > 5 \<or> \<bar>vec_z (position (obstacles ! i))\<bar> > 5) \<and>
       vec_x (position (obstacles ! i)) = randFloatSpread (worldSize * (9 / 10)) (random (cursors ! i)) \<and>
       vec_z (position (obstacles ! i)) = randFloatSpread (worldSize * (9 / 10)) (random (cursors ! i + 1)) \<and>
       \<bar>vec_x (position (obstacles ! i))\<bar> \<le> worldSize * (9 / 10) / 2 \<and>
       \<bar>vec_z (position (obstacles ! i))\<bar> \<le> worldSize * (9 / 10) / 2 \<and>
       scale (obstacles ! i) =
         \<lparr>vec_x = randFloat 1 4 (random (cursors ! i + 2)),
          vec_y = randFloat 1 4 (random (cursors ! i + 2)),
          vec_z = randFloat 1 4 (random (cursors ! i + 2))\<rparr> \<and>
       1 \<le> randFloat 1 4 (random (cursors ! i + 2)) \<and>
       randFloat 1 4 (random (cursors ! i + 2)) \<le> 4 \<and>
       vec_y (position (obstacles ! i)) = randFloat 1 4 (random (cursors ! i + 2)) / 2"
    if "i < 30" for i
    using drawnAt_properties[OF each[OF that] assms(1)] each[OF that]
    by (simp add: drawnAt_def)
  have sep: "cursors ! i + 3 \<le> cursors ! j" if "i < j \<and> j < 30" for i j
    using apart that lenc by (simp add: sorted_wrt_iff_nth_less)
  have "createObstacles 30 random = Some (obstacles, n)"
    using run by (simp add: createObstacles_def)
  then show ?thesis
    using len lenc props sep by blast
qed

text \<open>
  A source that returns 0 at every call: every draw is the corner (45, 45) and every scale
  is 1, so generation returns 30 obstacles at (45, 0.5, 45).
\<close>

theorem C8_obstacles_generated_witness:
  "\<exists>obstacles n. createObstacles 30 (constantRandom 0) = Some (obstacles, n) \<and>
     length obstacles = 30 \<and>
     (\<forall>i<30. vec_x (position (obstacles ! i)) = 45 \<and>
              vec_y (position (obstacles ! i)) = 1 / 2 \<and>
              vec_z (position (obstacles ! i)) = 45 \<and>
              scale (obstacles ! i) = \<lparr>vec_x = 1, vec_y = 1, vec_z = 1\<rparr>)"
proof -
  have range: "\<forall>n. 0 \<le> constantRandom 0 n \<and> constantRandom 0 n < 1"
    by (simp add: constantRandom_def)
  have progress: "\<forall>n. \<exists>m\<ge>n. \<bar>randFloatSpread (worldSize * (9 / 10)) (constantRandom 0 m)\<bar> > 5"
    by (auto simp: constantRandom_def randFloatSpread_def worldSize_def)
  from C8_obstacles_generated[OF range progress] obtain obstacles n cursors where
    run: "createObstacles 30 (constantRandom 0) = Some (obstacles, n)" "length obstacles = 30"
    and each: "\<forall>i<30.
       vec_x (position (obstacles ! i)) =
         randFloatSpread (worldSize * (9 / 10)) (constantRandom 0 (cursors ! i)) \<and>
       vec_z (position (obstacles ! i)) =
         randFloatSpread (worldSize * (9 / 10)) (constantRandom 0 (cursors ! i + 1)) \<and>
       scale (obstacles ! i) =
         \<lparr>vec_x = randFloat 1 4 (constantRandom 0 (cursors ! i + 2)),
          vec_y = randFloat 1 4 (constantRandom 0 (cursors ! i + 2)),
          vec_z = randFloat 1 4 (constantRandom 0 (cursors ! i + 2))\<rparr> \<and>
       vec_y (position (obstacles ! i)) = randFloat 1 4 (constantRandom 0 (cursors ! i + 2)) / 2"
    by blast
  have "\<forall>i<30. vec_x (position (obstacles ! i)) = 45 \<and>
              vec_y (position (obstacles ! i)) = 1 / 2 \<and>
              vec_z (position (obstacles ! i)) = 45 \<and>
              scale (obstacles ! i) = \<lparr>vec_x = 1, vec_y = 1, vec_z = 1\<rparr>"
    using each by (simp add: constantRandom_def randFloatSpread_def randFloat_def worldSize_def)
  with run show ?thesis
    by blast
qed

end
